theory Spec2Isabelle
  imports Main "HOL-Library.Word"
begin

unbundle bit_operations_syntax

section \<open>The bind interceptor of rebind.c\<close>

text \<open>
  A shallow embedding of \<^verbatim>\<open>src/rebind.c\<close>: the one function \<^verbatim>\<open>bind\<close> that an
  \<^verbatim>\<open>LD_PRELOAD\<close>ed library puts in front of the C library's own. The function is
  modelled as it is written: the caller's address is a pointer into a byte-addressed
  memory, the fields of \<^verbatim>\<open>struct sockaddr_in\<close> and \<^verbatim>\<open>struct sockaddr_in6\<close> are read
  and written at their offsets through that pointer, the local \<^verbatim>\<open>addr_tmp\<close> is a fresh
  object of the frame, and an access outside an object (a null pointer included) is
  a fault, as it is undefined behaviour in C.

  The system headers are not part of the repository. Their constants and layouts are
  those of Linux on x86-64 (glibc, LP64, little-endian), the platform the
  \<^verbatim>\<open>LD_PRELOAD\<close> mechanism of the file addresses.
\<close>

subsection \<open>Platform constants and machine integers\<close>

type_synonym byte = "8 word"

definition AF_UNSPEC :: nat where "AF_UNSPEC = 0"
definition AF_INET :: nat where "AF_INET = 2"
definition AF_INET6 :: nat where "AF_INET6 = 10"

definition IPPROTO_IPV6 :: int where "IPPROTO_IPV6 = 41"
definition IPV6_V6ONLY :: int where "IPV6_V6ONLY = 26"

definition ERANGE :: int where "ERANGE = 34"

definition LONG_MAX :: int where "LONG_MAX = 2 ^ 63 - 1"
definition LONG_MIN :: int where "LONG_MIN = - (2 ^ 63)"

text \<open>\<^verbatim>\<open>sizeof(struct sockaddr_storage)\<close>, \<^verbatim>\<open>sizeof(struct sockaddr_in)\<close> and
  \<^verbatim>\<open>sizeof(struct sockaddr_in6)\<close>.\<close>

definition sizeof_sockaddr_storage :: nat where "sizeof_sockaddr_storage = 128"
definition sizeof_sockaddr_in :: nat where "sizeof_sockaddr_in = 16"
definition sizeof_sockaddr_in6 :: nat where "sizeof_sockaddr_in6 = 28"

text \<open>\<^verbatim>\<open>INADDR_LOOPBACK\<close> is 127.0.0.1 as a host-order 32-bit value.\<close>

definition INADDR_LOOPBACK :: "32 word" where "INADDR_LOOPBACK = 0x7F000001"

text \<open>A 16-bit and a 32-bit object as the bytes a little-endian host keeps in memory,
  and back.\<close>

definition u16_of_bytes :: "byte \<Rightarrow> byte \<Rightarrow> 16 word" where
  "u16_of_bytes b0 b1 = ucast b0 OR push_bit 8 (ucast b1)"

definition bytes_of_u16 :: "16 word \<Rightarrow> byte list" where
  "bytes_of_u16 w = [ucast w, ucast (drop_bit 8 w)]"

definition bytes_of_u32 :: "32 word \<Rightarrow> byte list" where
  "bytes_of_u32 w =
     [ucast w, ucast (drop_bit 8 w), ucast (drop_bit 16 w), ucast (drop_bit 24 w)]"

text \<open>On a little-endian host \<^verbatim>\<open>htons\<close>, \<^verbatim>\<open>ntohs\<close> and \<^verbatim>\<open>htonl\<close> swap the bytes.\<close>

definition htons :: "16 word \<Rightarrow> 16 word" where
  "htons w = push_bit 8 w OR drop_bit 8 w"

definition ntohs :: "16 word \<Rightarrow> 16 word" where
  "ntohs w = push_bit 8 w OR drop_bit 8 w"

definition htonl :: "32 word \<Rightarrow> 32 word" where
  "htonl w = push_bit 24 w OR push_bit 8 (w AND 0xFF00)
               OR (drop_bit 8 w AND 0xFF00) OR drop_bit 24 w"

text \<open>The conversion of a \<^verbatim>\<open>long\<close> to \<^verbatim>\<open>int\<close> in \<^verbatim>\<open>oldport = strtol(...)\<close> keeps the
  low 32 bits (what gcc and clang define), and the conversion of an \<^verbatim>\<open>int\<close> to the
  \<^verbatim>\<open>uint16_t\<close> parameter of \<^verbatim>\<open>htons\<close> keeps the low 16 bits.\<close>

definition long_to_int :: "int \<Rightarrow> 32 word" where
  "long_to_int v = word_of_int v"

definition int_to_uint16 :: "32 word \<Rightarrow> 16 word" where
  "int_to_uint16 v = ucast v"

subsection \<open>Memory\<close>

text \<open>Memory is a list of objects, each a list of bytes. A pointer is null or names
  an object and an offset into it. Reading or writing outside the object is a fault.\<close>

datatype ptr = NULL | Ptr nat nat

type_synonym memory = "byte list list"

datatype fault = BadRead | BadWrite | NullCall

definition load :: "memory \<Rightarrow> ptr \<Rightarrow> nat \<Rightarrow> nat \<Rightarrow> fault + byte list" where
  "load m p off n =
     (case p of
        NULL \<Rightarrow> Inl BadRead
      | Ptr b i \<Rightarrow>
          if b < length m \<and> i + off + n \<le> length (m ! b)
          then Inr (take n (drop (i + off) (m ! b)))
          else Inl BadRead)"

text \<open>An object with the bytes \<open>bs\<close> written at offset \<open>off\<close>.\<close>

definition patch :: "byte list \<Rightarrow> nat \<Rightarrow> byte list \<Rightarrow> byte list" where
  "patch obj off bs = take off obj @ bs @ drop (off + length bs) obj"

definition store :: "memory \<Rightarrow> ptr \<Rightarrow> nat \<Rightarrow> byte list \<Rightarrow> fault + memory" where
  "store m p off bs =
     (case p of
        NULL \<Rightarrow> Inl BadWrite
      | Ptr b i \<Rightarrow>
          if b < length m \<and> i + off + length bs \<le> length (m ! b)
          then Inr (m[b := patch (m ! b) (i + off) bs])
          else Inl BadWrite)"

definition load_u16 :: "memory \<Rightarrow> ptr \<Rightarrow> nat \<Rightarrow> fault + 16 word" where
  "load_u16 m p off =
     (case load m p off 2 of
        Inl f \<Rightarrow> Inl f
      | Inr bs \<Rightarrow> (case bs of [b0, b1] \<Rightarrow> Inr (u16_of_bytes b0 b1) | _ \<Rightarrow> Inl BadRead))"

subsection \<open>The C library's strtol\<close>

text \<open>\<^verbatim>\<open>strtol(nptr, &end, 10)\<close> as ISO C 7.22.1.4 and glibc have it: leading white space
  is skipped, one sign is taken, then the decimal digits. With no digit nothing is
  converted: the value is 0 and \<^verbatim>\<open>end\<close> is \<^verbatim>\<open>nptr\<close>. A value outside \<^verbatim>\<open>long\<close> is
  clamped and \<^verbatim>\<open>errno\<close> becomes \<^verbatim>\<open>ERANGE\<close>; the digits are consumed all the same. A C
  string is the list of its characters before the terminating NUL, so \<^verbatim>\<open>*end == 0\<close>
  is \<open>end = []\<close>. The result is the value, the rest of the string at \<^verbatim>\<open>end\<close>, and
  whether the value was out of range.\<close>

definition isspace :: "char \<Rightarrow> bool" where
  "isspace c \<longleftrightarrow> c \<in> set [CHR '' '', CHR 0x09, CHR 0x0A, CHR 0x0B, CHR 0x0C, CHR 0x0D]"

definition isdigit :: "char \<Rightarrow> bool" where
  "isdigit c \<longleftrightarrow> (48::int) \<le> of_char c \<and> (of_char c :: int) \<le> 57"

definition digit_val :: "char \<Rightarrow> int" where
  "digit_val c = of_char c - 48"

fun digits_loop :: "int \<Rightarrow> string \<Rightarrow> int \<times> string" where
  "digits_loop acc [] = (acc, [])"
| "digits_loop acc (c # cs) =
     (if isdigit c then digits_loop (acc * 10 + digit_val c) cs else (acc, c # cs))"

definition strtol :: "string \<Rightarrow> int \<times> string \<times> bool" where
  "strtol nptr =
     (let s = dropWhile isspace nptr;
          negative = (case s of [] \<Rightarrow> False | c # cs \<Rightarrow> c = CHR ''-'');
          save = (case s of [] \<Rightarrow> s
                  | c # cs \<Rightarrow> if c = CHR ''-'' \<or> c = CHR ''+'' then cs else s);
          (i, rest) = digits_loop 0 save
      in if length rest = length save then (0, nptr, False)
         else if negative then
           (if i > - LONG_MIN then (LONG_MIN, rest, True) else (- i, rest, False))
         else
           (if i > LONG_MAX then (LONG_MAX, rest, True) else (i, rest, False)))"

subsection \<open>The decision to move a socket (lines 70 to 84)\<close>

record decision =
  do_move :: bool
  oldport :: "32 word"
  newport :: "32 word"
  erange :: bool

text \<open>\<open>erange\<close> records that one of the two \<^verbatim>\<open>strtol\<close> calls set \<^verbatim>\<open>errno\<close>.\<close>

definition no_move :: decision where
  "no_move = \<lparr>do_move = False, oldport = 0, newport = 0, erange = False\<rparr>"

definition determine_move :: "nat \<Rightarrow> int \<Rightarrow> (string \<Rightarrow> string option) \<Rightarrow> decision" where
  "determine_move family askport getenv =
     (if family = AF_INET \<or> family = AF_INET6 then
        (case getenv ''REBIND_OLD_PORT'' of
           None \<Rightarrow> no_move
         | Some PORT_OLD \<Rightarrow>
            (case getenv ''REBIND_NEW_PORT'' of
               None \<Rightarrow> no_move
             | Some PORT_NEW \<Rightarrow>
                if PORT_OLD \<noteq> [] \<and> PORT_NEW \<noteq> [] then
                  (case strtol PORT_OLD of (v1, end1, r1) \<Rightarrow>
                   (case strtol PORT_NEW of (v2, end2, r2) \<Rightarrow>
                      \<lparr>do_move = (long_to_int v1 \<noteq> 0 \<and> end1 = [] \<and>
                                  long_to_int v2 \<noteq> 0 \<and> end2 = [] \<and>
                                  sint (long_to_int v1) = askport),
                       oldport = long_to_int v1,
                       newport = long_to_int v2,
                       erange = (r1 \<or> r2)\<rparr>))
                else no_move))
      else no_move)"

subsection \<open>The process and its host\<close>

text \<open>What the operating system keeps and system calls change: \<^verbatim>\<open>errno\<close> and the
  kernel's own state (sockets, their options and bindings), which stays abstract.\<close>

record 'k os =
  errno :: int
  kern :: 'k

text \<open>The real \<^verbatim>\<open>bind\<close> takes the descriptor, the address pointer and the length. Its
  pointer is to \<^verbatim>\<open>const\<close> data: it reads the memory and changes only the system's
  state. It returns the C return value.\<close>

type_synonym 'k real_bind = "int \<Rightarrow> ptr \<Rightarrow> nat \<Rightarrow> memory \<Rightarrow> 'k os \<Rightarrow> int \<times> 'k os"

text \<open>The process: the static variable \<^verbatim>\<open>func\<close> of \<^verbatim>\<open>bind\<close> (null until the first
  call), the environment \<^verbatim>\<open>getenv\<close> reads, the memory and the system's state.\<close>

record 'k process =
  func :: "'k real_bind option"
  environ :: "string \<Rightarrow> string option"
  mem :: memory
  os :: "'k os"

text \<open>What the function calls and does not define: the result of
  \<^verbatim>\<open>dlsym(RTLD_NEXT, "bind")\<close> (\<open>None\<close> when the lookup fails), \<^verbatim>\<open>setsockopt\<close> (descriptor,
  level, option, the bytes of the option value and their number), and the
  indeterminate bytes the uninitialised local \<^verbatim>\<open>addr_tmp\<close> starts with.\<close>

record 'k host =
  dlsym_bind :: "'k real_bind option"
  setsockopt :: "int \<Rightarrow> int \<Rightarrow> int \<Rightarrow> byte list \<Rightarrow> nat \<Rightarrow> 'k os \<Rightarrow> int \<times> 'k os"
  stack :: "nat \<Rightarrow> byte"

subsection \<open>The function bind\<close>

text \<open>Line 51: \<^verbatim>\<open>int family = addr ? addr->sa_family : AF_UNSPEC;\<close>\<close>

definition read_family :: "memory \<Rightarrow> ptr \<Rightarrow> fault + nat" where
  "read_family m addr =
     (if addr = NULL then Inr AF_UNSPEC
      else (case load_u16 m addr 0 of Inl f \<Rightarrow> Inl f | Inr w \<Rightarrow> Inr (unat w)))"

text \<open>Lines 53 to 55: the real implementation is looked up when \<^verbatim>\<open>func\<close> is null.\<close>

definition resolve :: "'k host \<Rightarrow> 'k process \<Rightarrow> 'k process" where
  "resolve h s = (if func s = None then s\<lparr>func := dlsym_bind h\<rparr> else s)"

text \<open>Lines 57 to 65. The port is read at offset 2 of either structure. \<^verbatim>\<open>inet_ntop\<close>
  reads the 4 bytes of \<^verbatim>\<open>sin_addr\<close> at offset 4, or the 16 bytes of \<^verbatim>\<open>sin6_addr\<close> at
  offset 8; the text it writes to the local \<^verbatim>\<open>addr_str\<close> is used by \<^verbatim>\<open>DEBUG\<close> only,
  which expands to nothing. The second branch is taken for every family other than
  \<^verbatim>\<open>AF_INET\<close>.\<close>

definition extract_askport :: "memory \<Rightarrow> nat \<Rightarrow> ptr \<Rightarrow> fault + int" where
  "extract_askport m family addr =
     (if family = AF_INET then
        (case load_u16 m addr 2 of
           Inl f \<Rightarrow> Inl f
         | Inr sin_port \<Rightarrow>
            (case load m addr 4 4 of
               Inl f \<Rightarrow> Inl f
             | Inr sin_addr \<Rightarrow> Inr (uint (ntohs sin_port))))
      else
        (case load_u16 m addr 2 of
           Inl f \<Rightarrow> Inl f
         | Inr sin6_port \<Rightarrow>
            (case load m addr 8 16 of
               Inl f \<Rightarrow> Inl f
             | Inr sin6_addr \<Rightarrow> Inr (uint (ntohs sin6_port)))))"

text \<open>\<^verbatim>\<open>strtol\<close> sets \<^verbatim>\<open>errno\<close> when a value is out of range.\<close>

definition note_errno :: "decision \<Rightarrow> 'k process \<Rightarrow> 'k process" where
  "note_errno d s = (if erange d then s\<lparr>os := (os s)\<lparr>errno := ERANGE\<rparr>\<rparr> else s)"

text \<open>A call through \<^verbatim>\<open>func\<close> (lines 88 and 119), and the return of its value. The
  frame of \<^verbatim>\<open>bind\<close> ends with the return: the memory is again the \<open>n\<close> objects the
  caller had.\<close>

definition call_func ::
  "'k process \<Rightarrow> nat \<Rightarrow> int \<Rightarrow> ptr \<Rightarrow> nat \<Rightarrow> memory \<Rightarrow> 'k os \<Rightarrow> fault + (int \<times> 'k process)" where
  "call_func s n sockfd addr addrlen m sys =
     (case func s of
        None \<Rightarrow> Inl NullCall
      | Some f \<Rightarrow>
         (case f sockfd addr addrlen m sys of
            (ret, sys') \<Rightarrow> Inr (ret, s\<lparr>mem := take n m, os := sys'\<rparr>)))"

text \<open>Lines 86 to 91.\<close>

definition pass_through ::
  "'k process \<Rightarrow> int \<Rightarrow> ptr \<Rightarrow> nat \<Rightarrow> fault + (int \<times> 'k process)" where
  "pass_through s sockfd addr addrlen =
     call_func s (length (mem s)) sockfd addr addrlen (mem s) (os s)"

text \<open>Line 111: the address \<^verbatim>\<open>::ffff:127.0.0.1\<close>.\<close>

definition v4_loopback_mapped :: "byte list" where
  "v4_loopback_mapped = [0, 0, 0, 0, 0, 0, 0, 0, 0, 0, 0xff, 0xff, 127, 0, 0, 1]"

text \<open>Lines 96 to 118: the local \<^verbatim>\<open>addr_tmp\<close> is a new object after the caller's, the
  capped length is copied into it, and the fields are overwritten in the copy. The
  result is the memory, the pointer \<^verbatim>\<open>&addr_tmp\<close>, \<^verbatim>\<open>addrlen_tmp\<close> and the system's
  state, as line 119 finds them.\<close>

definition rewrite_address ::
  "'k host \<Rightarrow> 'k process \<Rightarrow> decision \<Rightarrow> nat \<Rightarrow> int \<Rightarrow> ptr \<Rightarrow> nat
     \<Rightarrow> fault + (memory \<times> ptr \<times> nat \<times> 'k os)" where
  "rewrite_address h s d family sockfd addr addrlen =
     (let addrlen_tmp = (if addrlen > sizeof_sockaddr_storage
                         then sizeof_sockaddr_storage else addrlen);
          addr_tmp = Ptr (length (mem s)) 0;
          m0 = mem s @ [map (stack h) [0..<sizeof_sockaddr_storage]]
      in case load m0 addr 0 addrlen_tmp of
           Inl f \<Rightarrow> Inl f
         | Inr bytes \<Rightarrow>
      (case store m0 addr_tmp 0 bytes of
           Inl f \<Rightarrow> Inl f
         | Inr m1 \<Rightarrow>
      if family = AF_INET then
        (case store m1 addr_tmp 4 (bytes_of_u32 (htonl INADDR_LOOPBACK)) of
           Inl f \<Rightarrow> Inl f
         | Inr m2 \<Rightarrow>
        (case store m2 addr_tmp 2 (bytes_of_u16 (htons (int_to_uint16 (newport d)))) of
           Inl f \<Rightarrow> Inl f
         | Inr m3 \<Rightarrow> Inr (m3, addr_tmp, addrlen_tmp, os s)))
      else
        (case setsockopt h sockfd IPPROTO_IPV6 IPV6_V6ONLY (bytes_of_u32 0) 4 (os s) of
           (ignored, sys) \<Rightarrow>
        (case store m1 addr_tmp 8 v4_loopback_mapped of
           Inl f \<Rightarrow> Inl f
         | Inr m2 \<Rightarrow>
        (case store m2 addr_tmp 2 (bytes_of_u16 (htons (int_to_uint16 (newport d)))) of
           Inl f \<Rightarrow> Inl f
         | Inr m3 \<Rightarrow>
        (case store m3 addr_tmp 24 (bytes_of_u32 0) of
           Inl f \<Rightarrow> Inl f
         | Inr m4 \<Rightarrow> Inr (m4, addr_tmp, addrlen_tmp, sys)))))))"

text \<open>Lines 96 to 122.\<close>

definition redirect ::
  "'k host \<Rightarrow> 'k process \<Rightarrow> decision \<Rightarrow> nat \<Rightarrow> int \<Rightarrow> ptr \<Rightarrow> nat
     \<Rightarrow> fault + (int \<times> 'k process)" where
  "redirect h s d family sockfd addr addrlen =
     (case rewrite_address h s d family sockfd addr addrlen of
        Inl f \<Rightarrow> Inl f
      | Inr (m, addr_tmp, addrlen_tmp, sys) \<Rightarrow>
          call_func s (length (mem s)) sockfd addr_tmp addrlen_tmp m sys)"

text \<open>The whole function. A fault ends the process, so it has no state.\<close>

definition bind ::
  "'k host \<Rightarrow> 'k process \<Rightarrow> int \<Rightarrow> ptr \<Rightarrow> nat \<Rightarrow> fault + (int \<times> 'k process)" where
  "bind h s sockfd addr addrlen =
     (case read_family (mem s) addr of
        Inl f \<Rightarrow> Inl f
      | Inr family \<Rightarrow>
     (let s1 = resolve h s in
      case extract_askport (mem s1) family addr of
        Inl f \<Rightarrow> Inl f
      | Inr askport \<Rightarrow>
     (let d = determine_move family askport (environ s1);
          s2 = note_errno d s1
      in if \<not> do_move d then pass_through s2 sockfd addr addrlen
         else redirect h s2 d family sockfd addr addrlen)))"

subsection \<open>Decimal numerals\<close>

text \<open>The integer a configuration value denotes when the whole of it is a decimal
  numeral: white space, then an optional sign, then one digit or more and nothing
  after them. \<open>to_long\<close> brings an integer into the range of \<^verbatim>\<open>long\<close>. These two say
  what it is to parse entirely as a base-10 integer; \<open>strtol\<close> above is compared with
  them.\<close>

definition numeral_value :: "string \<Rightarrow> int" where
  "numeral_value ds = foldl (\<lambda>a c. a * 10 + digit_val c) 0 ds"

definition whole_decimal :: "string \<Rightarrow> int option" where
  "whole_decimal str =
     (let s = dropWhile isspace str;
          ds = (case s of [] \<Rightarrow> [] | c # cs \<Rightarrow> if c = CHR ''-'' \<or> c = CHR ''+'' then cs else s)
      in if ds \<noteq> [] \<and> list_all isdigit ds
         then Some (case s of [] \<Rightarrow> 0
                    | c # cs \<Rightarrow> if c = CHR ''-'' then - numeral_value ds else numeral_value ds)
         else None)"

definition to_long :: "int \<Rightarrow> int" where
  "to_long v = max LONG_MIN (min LONG_MAX v)"

subsection \<open>Example calls\<close>

text \<open>A process with the old port 8080 and the new port 9090 in its environment, the
  IPv4 address 192.168.0.1:8080 and the IPv6 address [2001:db8::1]:8080 in its memory,
  and a host whose real \<^verbatim>\<open>bind\<close> succeeds and whose \<^verbatim>\<open>setsockopt\<close> fails. Then the same
  process with the new port 65536, with the old port 8081, and with an object of 200
  bytes that starts with the IPv4 address.\<close>

definition example_env :: "string \<Rightarrow> string option" where
  "example_env = [''REBIND_OLD_PORT'' \<mapsto> ''8080'', ''REBIND_NEW_PORT'' \<mapsto> ''9090'']"

definition example_sockaddr_in :: "byte list" where
  "example_sockaddr_in = [2, 0, 0x1F, 0x90, 192, 168, 0, 1, 0, 0, 0, 0, 0, 0, 0, 0]"

definition example_sockaddr_in6 :: "byte list" where
  "example_sockaddr_in6 =
     [10, 0, 0x1F, 0x90, 0, 0, 0, 0,
      0x20, 0x01, 0x0d, 0xb8, 0, 0, 0, 0, 0, 0, 0, 0, 0, 0, 0, 1,
      7, 0, 0, 0]"

text \<open>The example kernel keeps the calls it received, the latest first.\<close>

datatype syscall = Bind int "byte list" nat | Setsockopt int int int "byte list" nat

definition example_real_bind :: "syscall list real_bind" where
  "example_real_bind sockfd addr addrlen m sys =
     (case load m addr 0 addrlen of
        Inl f \<Rightarrow> (- 1, sys\<lparr>errno := 14\<rparr>)
      | Inr bytes \<Rightarrow> (0, sys\<lparr>kern := Bind sockfd bytes addrlen # kern sys\<rparr>))"

definition example_host :: "syscall list host" where
  "example_host =
     \<lparr>dlsym_bind = Some example_real_bind,
      setsockopt = (\<lambda>sockfd level optname optval optlen sys.
         (- 1, sys\<lparr>errno := 92,
                    kern := Setsockopt sockfd level optname optval optlen # kern sys\<rparr>)),
      stack = (\<lambda>i. 0xAA)\<rparr>"

definition example_process :: "syscall list process" where
  "example_process =
     \<lparr>func = None, environ = example_env,
      mem = [example_sockaddr_in, example_sockaddr_in6],
      os = \<lparr>errno = 0, kern = []\<rparr>\<rparr>"

text \<open>The process after the IPv4 address has been bound: the real \<^verbatim>\<open>bind\<close> is cached and
  the kernel has been asked for 127.0.0.1:9090.\<close>

definition example_process_bound :: "syscall list process" where
  "example_process_bound =
     \<lparr>func = Some example_real_bind, environ = example_env,
      mem = [example_sockaddr_in, example_sockaddr_in6],
      os = \<lparr>errno = 0,
            kern = [Bind 3 [2, 0, 0x23, 0x82, 127, 0, 0, 1, 0, 0, 0, 0, 0, 0, 0, 0] 16]\<rparr>\<rparr>"

definition example_process_65536 :: "syscall list process" where
  "example_process_65536 =
     example_process\<lparr>environ := example_env(''REBIND_NEW_PORT'' \<mapsto> ''65536'')\<rparr>"

definition example_process_8081 :: "syscall list process" where
  "example_process_8081 =
     example_process\<lparr>environ := example_env(''REBIND_OLD_PORT'' \<mapsto> ''8081'')\<rparr>"

definition example_process_long :: "syscall list process" where
  "example_process_long =
     example_process\<lparr>mem := [example_sockaddr_in @ replicate 184 0x55, example_sockaddr_in6]\<rparr>"

section \<open>Memory, bytes and words\<close>

lemma length_patch: "off + length bs \<le> length obj \<Longrightarrow> length (patch obj off bs) = length obj"
  by (simp add: patch_def)

lemma nth_patch:
  "off + length bs \<le> length obj \<Longrightarrow> i < length obj \<Longrightarrow>
   patch obj off bs ! i = (if off \<le> i \<and> i < off + length bs then bs ! (i - off) else obj ! i)"
  by (auto simp: patch_def nth_append min_def)

lemma read_patch_same:
  "off + length bs \<le> length obj \<Longrightarrow> take (length bs) (drop off (patch obj off bs)) = bs"
  by (simp add: patch_def)

lemma read_patch_at:
  "length bs = n \<Longrightarrow> off + n \<le> length obj \<Longrightarrow> take n (drop off (patch obj off bs)) = bs"
  using read_patch_same [of off bs obj] by simp

lemma read_patch_other:
  assumes "off + length bs \<le> length obj" and "o' + k \<le> off \<or> off + length bs \<le> o'"
  shows "take k (drop o' (patch obj off bs)) = take k (drop o' obj)"
proof (rule nth_equalityI)
  show "length (take k (drop o' (patch obj off bs))) = length (take k (drop o' obj))"
    using assms by (simp add: length_patch)
next
  fix i assume "i < length (take k (drop o' (patch obj off bs)))"
  then have i: "i < k" "o' + i < length obj" using assms by (auto simp: length_patch)
  then show "take k (drop o' (patch obj off bs)) ! i = take k (drop o' obj) ! i"
    using assms by (auto simp: length_patch nth_patch)
qed

lemma load_append: "load m p off n = Inr bs \<Longrightarrow> load (m @ ms) p off n = Inr bs"
  by (auto simp: load_def nth_append split: ptr.splits if_splits)

lemma store_last:
  "off + length bs \<le> length obj \<Longrightarrow>
   store (m @ [obj]) (Ptr (length m) 0) off bs = Inr (m @ [patch obj off bs])"
  by (simp add: store_def)

lemma load_last:
  "off + k \<le> length obj \<Longrightarrow> load (m @ [obj]) (Ptr (length m) 0) off k = Inr (take k (drop off obj))"
  by (simp add: load_def)

lemma load_length: "load m p off n = Inr bs \<Longrightarrow> length bs = n"
  by (auto simp: load_def split: ptr.splits if_splits)

lemma load_byte:
  assumes "load m p 0 k = Inr bytes" and "i < k"
  shows "load m p i 1 = Inr [bytes ! i]"
proof (cases p)
  case NULL
  with assms show ?thesis by (simp add: load_def)
next
  case (Ptr b j)
  with assms have b: "b < length m" "j + k \<le> length (m ! b)"
    and bytes: "bytes = take k (drop j (m ! b))"
    by (auto simp: load_def split: if_splits)
  have "take 1 (drop (j + i) (m ! b)) = [m ! b ! (j + i)]"
    using b assms(2) by (simp add: take_Suc_conv_app_nth)
  moreover have "bytes ! i = m ! b ! (j + i)"
    using b assms(2) by (simp add: bytes)
  ultimately show ?thesis
    using b assms(2) Ptr by (simp add: load_def)
qed

lemma load_last_byte:
  "i < length obj \<Longrightarrow> load (m @ [obj]) (Ptr (length m) 0) i 1 = Inr [obj ! i]"
  by (simp add: load_def take_Suc_conv_app_nth)

lemma store_frame:
  assumes "store m (Ptr b 0) off bs = Inr m'"
  shows "length m' = length m" and "take b m' = take b m"
  using assms by (auto simp: store_def split: if_splits)

lemma loopback_bytes: "bytes_of_u32 (htonl INADDR_LOOPBACK) = [127, 0, 0, 1]"
  by (simp add: bytes_of_u32_def htonl_def INADDR_LOOPBACK_def)

lemma zero_bytes: "bytes_of_u32 0 = [0, 0, 0, 0]"
  by (simp add: bytes_of_u32_def)

lemma htons_bytes: "bytes_of_u16 (htons w) = [ucast (drop_bit 8 w), ucast w]"
  apply (simp add: bytes_of_u16_def htons_def)
  apply (rule conjI; rule bit_word_eqI)
   apply (auto simp: bit_simps)
  done

lemma port_bytes_value:
  "uint (ucast (drop_bit 8 w) :: byte) * 256 + uint (ucast w :: byte) = uint (w :: 16 word)"
proof -
  define u where "u = uint w"
  have u: "0 \<le> u" "u < 65536"
    using uint_lt2p [of w] by (simp_all add: u_def)
  have hi: "uint (ucast (drop_bit 8 w) :: byte) = (u div 256) mod 256"
    by (simp add: unsigned_ucast_eq unsigned_drop_bit_eq take_bit_eq_mod drop_bit_eq_div u_def
        uint_div_distrib)
  have lo: "uint (ucast w :: byte) = u mod 256"
    by (simp add: unsigned_ucast_eq take_bit_eq_mod u_def)
  have "(u div 256) mod 256 = u div 256"
    using u by (intro mod_pos_pos_trivial) auto
  with hi lo show ?thesis
    by (simp add: u_def [symmetric])
qed

lemma narrowed_port_value:
  "uint (int_to_uint16 (long_to_int v)) = v mod 65536"
  by (simp add: int_to_uint16_def long_to_int_def unsigned_ucast_eq uint_word_of_int_eq
      take_bit_eq_mod mod_mod_cancel)

lemma length_bytes_of_u16: "length (bytes_of_u16 w) = 2"
  by (simp add: bytes_of_u16_def)

lemma length_v4_loopback_mapped: "length v4_loopback_mapped = 16"
  by (simp add: v4_loopback_mapped_def)

lemma patched_inet_fields:
  assumes "length bytes \<le> length obj" and "8 \<le> length obj" and "length port = 2"
  shows "take 4 (drop 4 (patch (patch (patch obj 0 bytes) 4 [a, b, c, d]) 2 port)) = [a, b, c, d]"
    and "take 2 (drop 2 (patch (patch (patch obj 0 bytes) 4 [a, b, c, d]) 2 port)) = port"
proof -
  let ?o1 = "patch obj 0 bytes"
  let ?o2 = "patch ?o1 4 [a, b, c, d]"
  have l1: "length ?o1 = length obj" using assms by (simp add: length_patch)
  have l2: "length ?o2 = length obj" using assms l1 by (simp add: length_patch)
  have "take 4 (drop 4 (patch ?o2 2 port)) = take 4 (drop 4 ?o2)"
    using assms l2 by (intro read_patch_other) auto
  also have "\<dots> = [a, b, c, d]"
    using assms l1 by (intro read_patch_at) auto
  finally show "take 4 (drop 4 (patch ?o2 2 port)) = [a, b, c, d]" .
  show "take 2 (drop 2 (patch ?o2 2 port)) = port"
    using assms l2 by (intro read_patch_at) auto
qed

lemma patched_inet6_fields:
  assumes "length bytes \<le> length obj" and "28 \<le> length obj"
      and "length a = 16" and "length port = 2" and "length z = 4"
  shows "take 16 (drop 8 (patch (patch (patch (patch obj 0 bytes) 8 a) 2 port) 24 z)) = a"
    and "take 2 (drop 2 (patch (patch (patch (patch obj 0 bytes) 8 a) 2 port) 24 z)) = port"
    and "take 4 (drop 24 (patch (patch (patch (patch obj 0 bytes) 8 a) 2 port) 24 z)) = z"
proof -
  let ?o1 = "patch obj 0 bytes"
  let ?o2 = "patch ?o1 8 a"
  let ?o3 = "patch ?o2 2 port"
  have l1: "length ?o1 = length obj" using assms by (simp add: length_patch)
  have l2: "length ?o2 = length obj" using assms l1 by (simp add: length_patch)
  have l3: "length ?o3 = length obj" using assms l2 by (simp add: length_patch)
  have "take 16 (drop 8 (patch ?o3 24 z)) = take 16 (drop 8 ?o3)"
    using assms l3 by (intro read_patch_other) auto
  also have "\<dots> = take 16 (drop 8 ?o2)"
    using assms l2 by (intro read_patch_other) auto
  also have "\<dots> = a"
    using assms l1 by (intro read_patch_at) auto
  finally show "take 16 (drop 8 (patch ?o3 24 z)) = a" .
  have "take 2 (drop 2 (patch ?o3 24 z)) = take 2 (drop 2 ?o3)"
    using assms l3 by (intro read_patch_other) auto
  also have "\<dots> = port"
    using assms l2 by (intro read_patch_at) auto
  finally show "take 2 (drop 2 (patch ?o3 24 z)) = port" .
  show "take 4 (drop 24 (patch ?o3 24 z)) = z"
    using assms l3 by (intro read_patch_at) auto
qed

lemma patched_inet_rest:
  assumes "length bytes \<le> length obj" and "8 \<le> length obj" and "length a = 4"
      and "length port = 2" and "i < length bytes" and "i < 2 \<or> 8 \<le> i"
  shows "patch (patch (patch obj 0 bytes) 4 a) 2 port ! i = bytes ! i"
proof -
  let ?o1 = "patch obj 0 bytes"
  let ?o2 = "patch ?o1 4 a"
  have l1: "length ?o1 = length obj" using assms by (simp add: length_patch)
  have l2: "length ?o2 = length obj" using assms l1 by (simp add: length_patch)
  have "patch ?o2 2 port ! i = ?o2 ! i" using assms l2 by (subst nth_patch) auto
  also have "\<dots> = ?o1 ! i" using assms l1 by (subst nth_patch) auto
  also have "\<dots> = bytes ! i" using assms by (subst nth_patch) auto
  finally show ?thesis .
qed

lemma patched_inet6_rest:
  assumes "length bytes \<le> length obj" and "28 \<le> length obj" and "length a = 16"
      and "length port = 2" and "length z = 4" and "i < length bytes"
      and "i < 2 \<or> (4 \<le> i \<and> i < 8) \<or> 28 \<le> i"
  shows "patch (patch (patch (patch obj 0 bytes) 8 a) 2 port) 24 z ! i = bytes ! i"
proof -
  let ?o1 = "patch obj 0 bytes"
  let ?o2 = "patch ?o1 8 a"
  let ?o3 = "patch ?o2 2 port"
  have l1: "length ?o1 = length obj" using assms by (simp add: length_patch)
  have l2: "length ?o2 = length obj" using assms l1 by (simp add: length_patch)
  have l3: "length ?o3 = length obj" using assms l2 by (simp add: length_patch)
  have "patch ?o3 24 z ! i = ?o3 ! i" using assms l3 by (subst nth_patch) auto
  also have "\<dots> = ?o2 ! i" using assms l2 by (subst nth_patch) auto
  also have "\<dots> = ?o1 ! i" using assms l1 by (subst nth_patch) auto
  also have "\<dots> = bytes ! i" using assms by (subst nth_patch) auto
  finally show ?thesis .
qed

section \<open>strtol converts whole decimal numerals\<close>

lemma digits_loop_split:
  "digits_loop acc s =
     (foldl (\<lambda>a c. a * 10 + digit_val c) acc (takeWhile isdigit s), dropWhile isdigit s)"
  by (induction s arbitrary: acc) simp_all

lemma digit_val_nonneg: "isdigit c \<Longrightarrow> 0 \<le> digit_val c"
  by (simp add: isdigit_def digit_val_def)

lemma foldl_digits_nonneg:
  "0 \<le> acc \<Longrightarrow> list_all isdigit ds \<Longrightarrow> 0 \<le> foldl (\<lambda>a c. a * 10 + digit_val c) acc ds"
  by (induction ds arbitrary: acc) (simp_all add: digit_val_nonneg)

lemma numeral_value_nonneg: "list_all isdigit ds \<Longrightarrow> 0 \<le> numeral_value ds"
  by (simp add: numeral_value_def foldl_digits_nonneg)

lemma takeWhile_all: "list_all P xs \<Longrightarrow> takeWhile P xs = xs"
  by (induction xs) simp_all

lemma strtol_whole:
  assumes "whole_decimal str = Some v"
  shows "strtol str = (to_long v, [], v < LONG_MIN \<or> LONG_MAX < v)"
proof -
  define s where "s = dropWhile isspace str"
  define ds where "ds = (case s of [] \<Rightarrow> [] | c # cs \<Rightarrow> if c = CHR ''-'' \<or> c = CHR ''+'' then cs else s)"
  define neg where "neg = (case s of [] \<Rightarrow> False | c # cs \<Rightarrow> c = CHR ''-'')"
  have sgn: "(case s of [] \<Rightarrow> 0 | c # cs \<Rightarrow> if c = CHR ''-'' then - numeral_value ds else numeral_value ds)
              = (if neg then - numeral_value ds else numeral_value ds)" if "ds \<noteq> []"
    using that by (cases s) (simp_all add: neg_def ds_def)
  have "(if ds \<noteq> [] \<and> list_all isdigit ds
         then Some (case s of [] \<Rightarrow> 0
                    | c # cs \<Rightarrow> if c = CHR ''-'' then - numeral_value ds else numeral_value ds)
         else None) = Some v"
    using assms unfolding whole_decimal_def Let_def s_def [symmetric] ds_def [symmetric] .
  then have ds: "ds \<noteq> []" "list_all isdigit ds"
    and v: "v = (if neg then - numeral_value ds else numeral_value ds)"
    using sgn by (auto split: if_splits)
  have save: "(case s of [] \<Rightarrow> s | c # cs \<Rightarrow> if c = CHR ''-'' \<or> c = CHR ''+'' then cs else s) = ds"
    by (simp add: ds_def split: list.splits)
  have loop: "digits_loop 0 ds = (numeral_value ds, [])"
    using ds by (simp add: digits_loop_split numeral_value_def takeWhile_all list_all_iff)
  have nn: "0 \<le> numeral_value ds" using ds by (simp add: numeral_value_nonneg)
  have "strtol str =
     (if length ([]::string) = length ds then (0, str, False)
         else if neg then
           (if numeral_value ds > - LONG_MIN then (LONG_MIN, [], True) else (- numeral_value ds, [], False))
         else
           (if numeral_value ds > LONG_MAX then (LONG_MAX, [], True) else (numeral_value ds, [], False)))"
    unfolding strtol_def Let_def s_def [symmetric] save neg_def [symmetric] loop by simp
  then show ?thesis
    using ds nn v
    by (auto simp: to_long_def LONG_MAX_def LONG_MIN_def max_def min_def)
qed

lemma strtol_not_whole:
  assumes "whole_decimal str = None" and "str \<noteq> []"
  shows "fst (snd (strtol str)) \<noteq> []"
proof -
  define s where "s = dropWhile isspace str"
  define ds where "ds = (case s of [] \<Rightarrow> [] | c # cs \<Rightarrow> if c = CHR ''-'' \<or> c = CHR ''+'' then cs else s)"
  have "(if ds \<noteq> [] \<and> list_all isdigit ds
         then Some (case s of [] \<Rightarrow> 0
                    | c # cs \<Rightarrow> if c = CHR ''-'' then - numeral_value ds else numeral_value ds)
         else None) = None"
    using assms(1) unfolding whole_decimal_def Let_def s_def [symmetric] ds_def [symmetric] .
  then have ds: "ds = [] \<or> \<not> list_all isdigit ds"
    by (auto split: if_splits)
  have save: "(case s of [] \<Rightarrow> s | c # cs \<Rightarrow> if c = CHR ''-'' \<or> c = CHR ''+'' then cs else s) = ds"
    by (simp add: ds_def split: list.splits)
  have rest: "dropWhile isdigit ds = [] \<Longrightarrow> ds = []"
    using ds by (simp add: list_all_iff)
  have "fst (snd (strtol str)) =
      (if length (dropWhile isdigit ds) = length ds then str else dropWhile isdigit ds)"
    unfolding strtol_def Let_def s_def [symmetric] save digits_loop_split
    by (simp add: split: if_splits)
  moreover have "length (dropWhile isdigit ds) \<noteq> length ds \<Longrightarrow> dropWhile isdigit ds \<noteq> []"
  proof
    assume a: "length (dropWhile isdigit ds) \<noteq> length ds" "dropWhile isdigit ds = []"
    then have "ds = []" using rest by blast
    with a show False by simp
  qed
  ultimately show ?thesis
    using assms(2) by (simp split: if_splits)
qed

lemma strtol_end_iff:
  assumes "str \<noteq> []"
  shows "fst (snd (strtol str)) = [] \<longleftrightarrow> whole_decimal str \<noteq> None"
proof
  assume "fst (snd (strtol str)) = []"
  then show "whole_decimal str \<noteq> None"
    using strtol_not_whole [OF _ assms] by blast
next
  assume "whole_decimal str \<noteq> None"
  then obtain v where "whole_decimal str = Some v" by auto
  from strtol_whole [OF this] show "fst (snd (strtol str)) = []" by simp
qed

section \<open>The decision\<close>

lemma do_move_family:
  "do_move (determine_move family askport getenv) \<Longrightarrow> family = AF_INET \<or> family = AF_INET6"
  by (auto simp: determine_move_def no_move_def split: if_splits)

lemma determine_move_iff:
  "do_move (determine_move family askport getenv) \<longleftrightarrow>
     (family = AF_INET \<or> family = AF_INET6) \<and>
     (\<exists>PORT_OLD PORT_NEW v_old v_new.
        getenv ''REBIND_OLD_PORT'' = Some PORT_OLD \<and>
        getenv ''REBIND_NEW_PORT'' = Some PORT_NEW \<and>
        PORT_OLD \<noteq> [] \<and> PORT_NEW \<noteq> [] \<and>
        whole_decimal PORT_OLD = Some v_old \<and>
        whole_decimal PORT_NEW = Some v_new \<and>
        long_to_int (to_long v_old) \<noteq> 0 \<and>
        long_to_int (to_long v_new) \<noteq> 0 \<and>
        sint (long_to_int (to_long v_old)) = askport)"
  (is "?lhs \<longleftrightarrow> ?fam \<and> ?cfg")
proof
  assume mv: ?lhs
  then have fam: ?fam by (rule do_move_family)
  from mv obtain PORT_OLD PORT_NEW where
    env: "getenv ''REBIND_OLD_PORT'' = Some PORT_OLD" "getenv ''REBIND_NEW_PORT'' = Some PORT_NEW"
    and ne: "PORT_OLD \<noteq> []" "PORT_NEW \<noteq> []"
    by (auto simp: determine_move_def no_move_def split: if_splits option.splits)
  obtain v1 end1 r1 where s1: "strtol PORT_OLD = (v1, end1, r1)" by (cases "strtol PORT_OLD")
  obtain v2 end2 r2 where s2: "strtol PORT_NEW = (v2, end2, r2)" by (cases "strtol PORT_NEW")
  from mv env ne fam s1 s2 have chk: "long_to_int v1 \<noteq> 0" "end1 = []" "long_to_int v2 \<noteq> 0"
    "end2 = []" "sint (long_to_int v1) = askport"
    by (auto simp: determine_move_def split: if_splits)
  from chk s1 s2 ne obtain v_old v_new where
    w: "whole_decimal PORT_OLD = Some v_old" "whole_decimal PORT_NEW = Some v_new"
    using strtol_end_iff [of PORT_OLD] strtol_end_iff [of PORT_NEW] by auto
  from strtol_whole [OF w(1)] strtol_whole [OF w(2)] s1 s2
  have "v1 = to_long v_old" "v2 = to_long v_new" by simp_all
  with chk env ne w have ?cfg by blast
  with fam show "?fam \<and> ?cfg" ..
next
  assume "?fam \<and> ?cfg"
  then obtain PORT_OLD PORT_NEW v_old v_new where fam: ?fam
    and env: "getenv ''REBIND_OLD_PORT'' = Some PORT_OLD" "getenv ''REBIND_NEW_PORT'' = Some PORT_NEW"
    and ne: "PORT_OLD \<noteq> []" "PORT_NEW \<noteq> []"
    and w: "whole_decimal PORT_OLD = Some v_old" "whole_decimal PORT_NEW = Some v_new"
    and chk: "long_to_int (to_long v_old) \<noteq> 0" "long_to_int (to_long v_new) \<noteq> 0"
      "sint (long_to_int (to_long v_old)) = askport"
    by blast
  from fam env ne chk show ?lhs
    by (simp add: determine_move_def strtol_whole [OF w(1)] strtol_whole [OF w(2)])
qed

lemma do_move_newport:
  assumes "do_move (determine_move family askport getenv)"
  shows "\<exists>PORT_NEW v. getenv ''REBIND_NEW_PORT'' = Some PORT_NEW \<and>
           whole_decimal PORT_NEW = Some v \<and>
           strtol PORT_NEW = (to_long v, [], v < LONG_MIN \<or> LONG_MAX < v) \<and>
           newport (determine_move family askport getenv) = long_to_int (to_long v)"
proof -
  from assms obtain PORT_OLD PORT_NEW where
    env: "getenv ''REBIND_OLD_PORT'' = Some PORT_OLD" "getenv ''REBIND_NEW_PORT'' = Some PORT_NEW"
    and ne: "PORT_OLD \<noteq> []" "PORT_NEW \<noteq> []"
    and fam: "family = AF_INET \<or> family = AF_INET6"
    by (auto simp: determine_move_def no_move_def split: if_splits option.splits)
  obtain v1 end1 r1 where s1: "strtol PORT_OLD = (v1, end1, r1)" by (cases "strtol PORT_OLD")
  obtain v2 end2 r2 where s2: "strtol PORT_NEW = (v2, end2, r2)" by (cases "strtol PORT_NEW")
  from assms env ne fam s1 s2 have e2: "end2 = []"
    and np: "newport (determine_move family askport getenv) = long_to_int v2"
    by (auto simp: determine_move_def split: if_splits)
  have "whole_decimal PORT_NEW \<noteq> None"
    using strtol_not_whole [of PORT_NEW] ne s2 e2 by auto
  then obtain v where v: "whole_decimal PORT_NEW = Some v" by auto
  from strtol_whole [OF v] s2 np env v show ?thesis by auto
qed


lemma rewritten_port_value:
  assumes "do_move (determine_move family askport getenv)"
  shows "\<exists>PORT_NEW v. getenv ''REBIND_NEW_PORT'' = Some PORT_NEW \<and>
           whole_decimal PORT_NEW = Some v \<and>
           fst (strtol PORT_NEW) = to_long v \<and>
           uint (int_to_uint16 (newport (determine_move family askport getenv)))
             = to_long v mod 65536"
  using do_move_newport [OF assms] by (auto simp: narrowed_port_value)

lemma extract_askport_bytes:
  assumes "extract_askport m family addr = Inr askport"
  shows "\<exists>hi lo. load m addr 2 2 = Inr [hi, lo] \<and> askport = uint hi * 256 + uint lo"
proof -
  from assms obtain w where w: "load_u16 m addr 2 = Inr w" and a: "askport = uint (ntohs w)"
    by (auto simp: extract_askport_def split: if_splits sum.splits)
  from w obtain b0 b1 where ld: "load m addr 2 2 = Inr [b0, b1]" and w': "w = u16_of_bytes b0 b1"
    by (auto simp: load_u16_def split: sum.splits list.splits)
  have "bytes_of_u16 (htons (ntohs w)) = [b0, b1]"
    unfolding bytes_of_u16_def htons_def ntohs_def w' u16_of_bytes_def
    by (simp, intro conjI; rule bit_word_eqI) (auto simp: bit_simps dest: bit_imp_le_length)
  then have "b0 = ucast (drop_bit 8 (ntohs w))" "b1 = ucast (ntohs w)"
    by (simp_all add: htons_bytes)
  then have "uint b0 * 256 + uint b1 = uint (ntohs w)"
    by (simp add: port_bytes_value)
  with ld a show ?thesis by auto
qed

section \<open>The two paths of bind\<close>

lemma capped_length:
  "(if addrlen > sizeof_sockaddr_storage then sizeof_sockaddr_storage else addrlen)
     = min addrlen sizeof_sockaddr_storage"
  by (simp add: min_def)

lemma rewrite_address_inet:
  assumes cp: "load (mem s) addr 0 (min addrlen sizeof_sockaddr_storage) = Inr bytes"
  shows "rewrite_address h s d AF_INET sockfd addr addrlen =
           Inr (mem s @
                  [patch (patch (patch (map (stack h) [0..<sizeof_sockaddr_storage]) 0 bytes)
                                4 [127, 0, 0, 1])
                         2 (bytes_of_u16 (htons (int_to_uint16 (newport d))))],
                Ptr (length (mem s)) 0, min addrlen sizeof_sockaddr_storage, os s)"
proof -
  have len: "length bytes \<le> sizeof_sockaddr_storage"
    using load_length [OF cp] by simp
  have big: "8 \<le> sizeof_sockaddr_storage"
    by (simp add: sizeof_sockaddr_storage_def)
  show ?thesis
    unfolding rewrite_address_def Let_def capped_length
    using len big
    by (simp add: load_append [OF cp] store_last length_patch loopback_bytes
        length_bytes_of_u16)
qed

lemma rewrite_address_inet6:
  assumes cp: "load (mem s) addr 0 (min addrlen sizeof_sockaddr_storage) = Inr bytes"
      and fam: "family \<noteq> AF_INET"
  shows "rewrite_address h s d family sockfd addr addrlen =
           Inr (mem s @
                  [patch (patch (patch (patch (map (stack h) [0..<sizeof_sockaddr_storage]) 0 bytes)
                                       8 v4_loopback_mapped)
                                2 (bytes_of_u16 (htons (int_to_uint16 (newport d)))))
                         24 [0, 0, 0, 0]],
                Ptr (length (mem s)) 0, min addrlen sizeof_sockaddr_storage,
                snd (setsockopt h sockfd IPPROTO_IPV6 IPV6_V6ONLY (bytes_of_u32 0) 4 (os s)))"
proof -
  have len: "length bytes \<le> sizeof_sockaddr_storage"
    using load_length [OF cp] by simp
  have big: "28 \<le> sizeof_sockaddr_storage"
    by (simp add: sizeof_sockaddr_storage_def)
  show ?thesis
    unfolding rewrite_address_def Let_def capped_length
    using len big fam
    by (simp add: load_append [OF cp] store_last length_patch zero_bytes
        length_bytes_of_u16 length_v4_loopback_mapped split: prod.split)
qed

lemma rewrite_address_frame:
  assumes "rewrite_address h s d family sockfd addr addrlen = Inr (m, p, n, sys)"
  shows "take (length (mem s)) m = mem s"
    and "length m = Suc (length (mem s))"
    and "p = Ptr (length (mem s)) 0"
proof -
  let ?b = "length (mem s)"
  let ?m0 = "mem s @ [map (stack h) [0..<sizeof_sockaddr_storage]]"
  let ?k = "min addrlen sizeof_sockaddr_storage"
  let ?port = "bytes_of_u16 (htons (int_to_uint16 (newport d)))"
  let ?ok = "\<lambda>m'. take ?b m' = mem s \<and> length m' = Suc ?b"
  have step: "?ok m''" if "store m' (Ptr ?b 0) off bs = Inr m''" "?ok m'" for m' m'' off bs
    using store_frame [OF that(1)] that(2) by simp
  have ok0: "?ok ?m0" by simp
  obtain bytes where ld: "load ?m0 addr 0 ?k = Inr bytes"
    using assms unfolding rewrite_address_def Let_def capped_length
    by (cases "load ?m0 addr 0 ?k") simp_all
  obtain m1 where st1: "store ?m0 (Ptr ?b 0) 0 bytes = Inr m1"
    using assms ld unfolding rewrite_address_def Let_def capped_length
    by (cases "store ?m0 (Ptr ?b 0) 0 bytes") simp_all
  have ok1: "?ok m1" using step [OF st1 ok0] .
  have "take ?b m = mem s \<and> length m = Suc ?b \<and> p = Ptr ?b 0"
  proof (cases "family = AF_INET")
    case True
    obtain m2 where st2: "store m1 (Ptr ?b 0) 4 (bytes_of_u32 (htonl INADDR_LOOPBACK)) = Inr m2"
      using assms ld st1 True unfolding rewrite_address_def Let_def capped_length
      by (cases "store m1 (Ptr ?b 0) 4 (bytes_of_u32 (htonl INADDR_LOOPBACK))") simp_all
    obtain m3 where st3: "store m2 (Ptr ?b 0) 2 ?port = Inr m3"
      using assms ld st1 st2 True unfolding rewrite_address_def Let_def capped_length
      by (cases "store m2 (Ptr ?b 0) 2 ?port") simp_all
    have "m = m3 \<and> p = Ptr ?b 0"
      using assms ld st1 st2 st3 True unfolding rewrite_address_def Let_def capped_length
      by simp
    with step [OF st3 step [OF st2 ok1]] show ?thesis by simp
  next
    case False
    obtain m2 where st2: "store m1 (Ptr ?b 0) 8 v4_loopback_mapped = Inr m2"
      using assms ld st1 False unfolding rewrite_address_def Let_def capped_length
      by (cases "store m1 (Ptr ?b 0) 8 v4_loopback_mapped") (simp_all split: prod.splits)
    obtain m3 where st3: "store m2 (Ptr ?b 0) 2 ?port = Inr m3"
      using assms ld st1 st2 False unfolding rewrite_address_def Let_def capped_length
      by (cases "store m2 (Ptr ?b 0) 2 ?port") (simp_all split: prod.splits)
    obtain m4 where st4: "store m3 (Ptr ?b 0) 24 (bytes_of_u32 0) = Inr m4"
      using assms ld st1 st2 st3 False unfolding rewrite_address_def Let_def capped_length
      by (cases "store m3 (Ptr ?b 0) 24 (bytes_of_u32 0)") (simp_all split: prod.splits)
    have "m = m4 \<and> p = Ptr ?b 0"
      using assms ld st1 st2 st3 st4 False unfolding rewrite_address_def Let_def capped_length
      by (simp split: prod.splits)
    with step [OF st4 step [OF st3 step [OF st2 ok1]]] show ?thesis by simp
  qed
  then show "take (length (mem s)) m = mem s" "length m = Suc (length (mem s))"
    "p = Ptr (length (mem s)) 0"
    by simp_all
qed

lemma bind_unfold:
  assumes "read_family (mem s) addr = Inr family"
      and "extract_askport (mem s) family addr = Inr askport"
  shows "bind h s sockfd addr addrlen =
           (let d = determine_move family askport (environ s);
                s2 = note_errno d (resolve h s)
            in if \<not> do_move d then pass_through s2 sockfd addr addrlen
               else redirect h s2 d family sockfd addr addrlen)"
  using assms by (simp add: bind_def resolve_def Let_def)

lemma mem_prepared [simp]: "mem (note_errno d (resolve h s)) = mem s"
  by (simp add: note_errno_def resolve_def)

lemma func_prepared [simp]: "func (note_errno d (resolve h s)) = func (resolve h s)"
  by (simp add: note_errno_def)

lemma environ_prepared [simp]: "environ (note_errno d (resolve h s)) = environ s"
  by (simp add: note_errno_def resolve_def)

lemma resolve_setsockopt [simp]: "resolve (h\<lparr>setsockopt := g\<rparr>) s = resolve h s"
  by (simp add: resolve_def)

lemma call_func_frame:
  assumes "func s = Some f" and "take n m = mem s"
  shows "call_func s n sockfd p k m sys =
           (case f sockfd p k m sys of (ret, sys') \<Rightarrow> Inr (ret, s\<lparr>os := sys'\<rparr>))"
  using assms by (simp add: call_func_def split: prod.split)

lemma call_func_result:
  assumes "call_func s n sockfd p k m sys = Inr (ret, s')"
  obtains f where "func s = Some f" "f sockfd p k m sys = (ret, os s')"
    "mem s' = take n m" "func s' = Some f" "environ s' = environ s"
  using assms by (auto simp: call_func_def split: option.splits prod.splits)

lemma bind_cases:
  assumes "bind h s sockfd addr addrlen = Inr (ret, s')"
  obtains family askport where
    "read_family (mem s) addr = Inr family"
    "extract_askport (mem s) family addr = Inr askport"
  using assms
  by (auto simp: bind_def resolve_def Let_def split: sum.splits if_splits)

lemma bind_pass_through:
  assumes fam: "read_family (mem s) addr = Inr family"
      and port: "extract_askport (mem s) family addr = Inr askport"
      and fn: "func (resolve h s) = Some f"
      and mv: "\<not> do_move (determine_move family askport (environ s))"
  shows "bind h s sockfd addr addrlen =
           (case f sockfd addr addrlen (mem s)
                   (os (note_errno (determine_move family askport (environ s)) (resolve h s))) of
              (ret, sys') \<Rightarrow>
                Inr (ret, (note_errno (determine_move family askport (environ s)) (resolve h s))
                            \<lparr>os := sys'\<rparr>))"
  using mv fn
  by (simp add: bind_unfold [OF fam port] Let_def pass_through_def call_func_frame)

lemma bind_redirect_inet:
  assumes fam: "read_family (mem s) addr = Inr AF_INET"
      and port: "extract_askport (mem s) AF_INET addr = Inr askport"
      and fn: "func (resolve h s) = Some f"
      and mv: "do_move (determine_move AF_INET askport (environ s))"
      and cp: "load (mem s) addr 0 (min addrlen sizeof_sockaddr_storage) = Inr bytes"
      and d: "d = determine_move AF_INET askport (environ s)"
      and s2: "s2 = note_errno d (resolve h s)"
  shows "bind h s sockfd addr addrlen =
           (case f sockfd (Ptr (length (mem s)) 0) (min addrlen sizeof_sockaddr_storage)
                   (mem s @
                     [patch (patch (patch (map (stack h) [0..<sizeof_sockaddr_storage]) 0 bytes)
                                   4 [127, 0, 0, 1])
                            2 (bytes_of_u16 (htons (int_to_uint16 (newport d))))])
                   (os s2) of
              (ret, sys') \<Rightarrow> Inr (ret, s2\<lparr>os := sys'\<rparr>))"
proof -
  have cp2: "load (mem s2) addr 0 (min addrlen sizeof_sockaddr_storage) = Inr bytes"
    using cp by (simp add: s2)
  have fn2: "func s2 = Some f" using fn by (simp add: s2)
  have "bind h s sockfd addr addrlen = redirect h s2 d AF_INET sockfd addr addrlen"
    using mv by (simp add: bind_unfold [OF fam port] Let_def d s2)
  also have "\<dots> = call_func s2 (length (mem s2)) sockfd (Ptr (length (mem s2)) 0)
                     (min addrlen sizeof_sockaddr_storage)
                     (mem s2 @
                       [patch (patch (patch (map (stack h) [0..<sizeof_sockaddr_storage]) 0 bytes)
                                     4 [127, 0, 0, 1])
                              2 (bytes_of_u16 (htons (int_to_uint16 (newport d))))])
                     (os s2)"
    by (simp add: redirect_def rewrite_address_inet [OF cp2])
  also have "\<dots> = (case f sockfd (Ptr (length (mem s2)) 0) (min addrlen sizeof_sockaddr_storage)
                   (mem s2 @
                     [patch (patch (patch (map (stack h) [0..<sizeof_sockaddr_storage]) 0 bytes)
                                   4 [127, 0, 0, 1])
                            2 (bytes_of_u16 (htons (int_to_uint16 (newport d))))])
                   (os s2) of
              (ret, sys') \<Rightarrow> Inr (ret, s2\<lparr>os := sys'\<rparr>))"
    by (rule call_func_frame [OF fn2]) simp
  finally show ?thesis by (simp add: s2)
qed

lemma bind_redirect_inet6:
  assumes fam: "read_family (mem s) addr = Inr AF_INET6"
      and port: "extract_askport (mem s) AF_INET6 addr = Inr askport"
      and fn: "func (resolve h s) = Some f"
      and mv: "do_move (determine_move AF_INET6 askport (environ s))"
      and cp: "load (mem s) addr 0 (min addrlen sizeof_sockaddr_storage) = Inr bytes"
      and d: "d = determine_move AF_INET6 askport (environ s)"
      and s2: "s2 = note_errno d (resolve h s)"
  shows "bind h s sockfd addr addrlen =
           (case f sockfd (Ptr (length (mem s)) 0) (min addrlen sizeof_sockaddr_storage)
                   (mem s @
                     [patch (patch (patch (patch (map (stack h) [0..<sizeof_sockaddr_storage]) 0 bytes)
                                          8 v4_loopback_mapped)
                                   2 (bytes_of_u16 (htons (int_to_uint16 (newport d)))))
                            24 [0, 0, 0, 0]])
                   (snd (setsockopt h sockfd IPPROTO_IPV6 IPV6_V6ONLY (bytes_of_u32 0) 4 (os s2))) of
              (ret, sys') \<Rightarrow> Inr (ret, s2\<lparr>os := sys'\<rparr>))"
proof -
  have cp2: "load (mem s2) addr 0 (min addrlen sizeof_sockaddr_storage) = Inr bytes"
    using cp by (simp add: s2)
  have fn2: "func s2 = Some f" using fn by (simp add: s2)
  have ne: "AF_INET6 \<noteq> AF_INET" by (simp add: AF_INET_def AF_INET6_def)
  have "bind h s sockfd addr addrlen = redirect h s2 d AF_INET6 sockfd addr addrlen"
    using mv by (simp add: bind_unfold [OF fam port] Let_def d s2)
  also have "\<dots> = call_func s2 (length (mem s2)) sockfd (Ptr (length (mem s2)) 0)
                     (min addrlen sizeof_sockaddr_storage)
                     (mem s2 @
                     [patch (patch (patch (patch (map (stack h) [0..<sizeof_sockaddr_storage]) 0 bytes)
                                          8 v4_loopback_mapped)
                                   2 (bytes_of_u16 (htons (int_to_uint16 (newport d)))))
                            24 [0, 0, 0, 0]])
                   (snd (setsockopt h sockfd IPPROTO_IPV6 IPV6_V6ONLY (bytes_of_u32 0) 4 (os s2)))"
    by (simp add: redirect_def rewrite_address_inet6 [OF cp2 ne])
  also have "\<dots> = (case f sockfd (Ptr (length (mem s2)) 0) (min addrlen sizeof_sockaddr_storage)
                   (mem s2 @
                     [patch (patch (patch (patch (map (stack h) [0..<sizeof_sockaddr_storage]) 0 bytes)
                                          8 v4_loopback_mapped)
                                   2 (bytes_of_u16 (htons (int_to_uint16 (newport d)))))
                            24 [0, 0, 0, 0]])
                   (snd (setsockopt h sockfd IPPROTO_IPV6 IPV6_V6ONLY (bytes_of_u32 0) 4 (os s2))) of
              (ret, sys') \<Rightarrow> Inr (ret, s2\<lparr>os := sys'\<rparr>))"
    by (rule call_func_frame [OF fn2]) simp
  finally show ?thesis by (simp add: s2)
qed

lemma bind_redirected:
  assumes fam: "read_family (mem s) addr = Inr family"
      and port: "extract_askport (mem s) family addr = Inr askport"
      and fn: "func (resolve h s) = Some f"
      and mv: "do_move (determine_move family askport (environ s))"
      and cp: "load (mem s) addr 0 (min addrlen sizeof_sockaddr_storage) = Inr bytes"
      and d: "d = determine_move family askport (environ s)"
      and s2: "s2 = note_errno d (resolve h s)"
  obtains obj sys where
    "bind h s sockfd addr addrlen =
       (case f sockfd (Ptr (length (mem s)) 0) (min addrlen sizeof_sockaddr_storage)
               (mem s @ [obj]) sys of
          (ret, sys') \<Rightarrow> Inr (ret, s2\<lparr>os := sys'\<rparr>))"
    and "length obj = sizeof_sockaddr_storage"
    and "take 2 (drop 2 obj) = bytes_of_u16 (htons (int_to_uint16 (newport d)))"
    and "\<And>i. i < length bytes \<Longrightarrow>
           (if family = AF_INET then i < 2 \<or> 8 \<le> i
            else i < 2 \<or> (4 \<le> i \<and> i < 8) \<or> 28 \<le> i) \<Longrightarrow> obj ! i = bytes ! i"
    and "sys = (if family = AF_INET then os s2
                else snd (setsockopt h sockfd IPPROTO_IPV6 IPV6_V6ONLY (bytes_of_u32 0) 4 (os s2)))"
proof -
  let ?junk = "map (stack h) [0..<sizeof_sockaddr_storage]"
  let ?port = "bytes_of_u16 (htons (int_to_uint16 (newport d)))"
  have len: "length bytes \<le> length ?junk"
    using load_length [OF cp] by simp
  have big: "28 \<le> length ?junk" "8 \<le> length ?junk"
    by (simp_all add: sizeof_sockaddr_storage_def)
  from do_move_family [OF mv] show ?thesis
  proof
    assume inet: "family = AF_INET"
    let ?obj = "patch (patch (patch ?junk 0 bytes) 4 [127, 0, 0, 1]) 2 ?port"
    show ?thesis
    proof (rule that [of ?obj "os s2"])
      show "bind h s sockfd addr addrlen =
              (case f sockfd (Ptr (length (mem s)) 0) (min addrlen sizeof_sockaddr_storage)
                      (mem s @ [?obj]) (os s2) of
                 (ret, sys') \<Rightarrow> Inr (ret, s2\<lparr>os := sys'\<rparr>))"
        using bind_redirect_inet [of s addr askport h f addrlen bytes d s2 sockfd]
          fam port fn mv cp d s2 inet by simp
      show "length ?obj = sizeof_sockaddr_storage"
        using len big by (simp add: length_patch length_bytes_of_u16)
      show "take 2 (drop 2 ?obj) = ?port"
        using len big by (intro patched_inet_fields) (simp_all add: length_bytes_of_u16)
      show "?obj ! i = bytes ! i"
        if "i < length bytes"
          and "if family = AF_INET then i < 2 \<or> 8 \<le> i
               else i < 2 \<or> (4 \<le> i \<and> i < 8) \<or> 28 \<le> i" for i
        using that len big inet
        by (intro patched_inet_rest) (simp_all add: length_bytes_of_u16)
      show "os s2 = (if family = AF_INET then os s2
                else snd (setsockopt h sockfd IPPROTO_IPV6 IPV6_V6ONLY (bytes_of_u32 0) 4 (os s2)))"
        using inet by simp
    qed
  next
    assume inet6: "family = AF_INET6"
    then have ne: "family \<noteq> AF_INET" by (simp add: AF_INET_def AF_INET6_def)
    let ?obj = "patch (patch (patch (patch ?junk 0 bytes) 8 v4_loopback_mapped) 2 ?port)
                      24 [0, 0, 0, 0]"
    let ?sys = "snd (setsockopt h sockfd IPPROTO_IPV6 IPV6_V6ONLY (bytes_of_u32 0) 4 (os s2))"
    show ?thesis
    proof (rule that [of ?obj ?sys])
      show "bind h s sockfd addr addrlen =
              (case f sockfd (Ptr (length (mem s)) 0) (min addrlen sizeof_sockaddr_storage)
                      (mem s @ [?obj]) ?sys of
                 (ret, sys') \<Rightarrow> Inr (ret, s2\<lparr>os := sys'\<rparr>))"
        using bind_redirect_inet6 [of s addr askport h f addrlen bytes d s2 sockfd]
          fam port fn mv cp d s2 inet6 by simp
      show "length ?obj = sizeof_sockaddr_storage"
        using len big
        by (simp add: length_patch length_bytes_of_u16 length_v4_loopback_mapped)
      show "take 2 (drop 2 ?obj) = ?port"
        using len big
        by (intro patched_inet6_fields)
           (simp_all add: length_bytes_of_u16 length_v4_loopback_mapped)
      show "?obj ! i = bytes ! i"
        if "i < length bytes"
          and "if family = AF_INET then i < 2 \<or> 8 \<le> i
               else i < 2 \<or> (4 \<le> i \<and> i < 8) \<or> 28 \<le> i" for i
        using that len big ne
        by (intro patched_inet6_rest)
           (simp_all add: length_bytes_of_u16 length_v4_loopback_mapped)
      show "?sys = (if family = AF_INET then os s2 else ?sys)"
        using ne by simp
    qed
  qed
qed


section \<open>The example calls, evaluated\<close>

lemma example_family_inet: "read_family (mem example_process) (Ptr 0 0) = Inr AF_INET"
  by (simp add: example_process_def example_sockaddr_in_def read_family_def load_u16_def
      load_def u16_of_bytes_def AF_INET_def)

lemma example_family_inet6: "read_family (mem example_process) (Ptr 1 0) = Inr AF_INET6"
  by (simp add: example_process_def example_sockaddr_in6_def read_family_def load_u16_def
      load_def u16_of_bytes_def AF_INET6_def)

lemma example_askport_inet:
  "extract_askport (mem example_process) AF_INET (Ptr 0 0) = Inr 8080"
  by (simp add: example_process_def example_sockaddr_in_def extract_askport_def load_u16_def
      load_def u16_of_bytes_def ntohs_def)

lemma example_askport_inet6:
  "extract_askport (mem example_process) AF_INET6 (Ptr 1 0) = Inr 8080"
  by (simp add: example_process_def example_sockaddr_in6_def extract_askport_def load_u16_def
      load_def u16_of_bytes_def ntohs_def AF_INET_def AF_INET6_def)

lemma strtol_8080: "strtol ''8080'' = (8080, [], False)"
  by (simp add: strtol_def isspace_def isdigit_def digit_val_def LONG_MAX_def)

lemma strtol_9090: "strtol ''9090'' = (9090, [], False)"
  by (simp add: strtol_def isspace_def isdigit_def digit_val_def LONG_MAX_def)

lemma whole_decimal_9090: "whole_decimal ''9090'' = Some 9090"
  by (simp add: whole_decimal_def numeral_value_def isspace_def isdigit_def digit_val_def)

lemma example_new_port: "environ example_process ''REBIND_NEW_PORT'' = Some ''9090''"
  by (simp add: example_process_def example_env_def)

lemma strtol_65536: "strtol ''65536'' = (65536, [], False)"
  by (simp add: strtol_def isspace_def isdigit_def digit_val_def LONG_MAX_def)

lemma strtol_8081: "strtol ''8081'' = (8081, [], False)"
  by (simp add: strtol_def isspace_def isdigit_def digit_val_def LONG_MAX_def)

lemma example_decision:
  "family = AF_INET \<or> family = AF_INET6 \<Longrightarrow>
   determine_move family 8080 (environ example_process)
     = \<lparr>do_move = True, oldport = 8080, newport = 9090, erange = False\<rparr>"
  by (simp add: determine_move_def example_process_def example_env_def strtol_8080 strtol_9090
      long_to_int_def)

lemma example_func: "func (resolve example_host example_process) = Some example_real_bind"
  by (simp add: resolve_def example_host_def example_process_def)

lemma example_copy_inet:
  "load (mem example_process) (Ptr 0 0) 0 (min 16 sizeof_sockaddr_storage) = Inr example_sockaddr_in"
  by (simp add: example_process_def load_def sizeof_sockaddr_storage_def example_sockaddr_in_def)

lemma example_copy_inet6:
  "load (mem example_process) (Ptr 1 0) 0 (min 28 sizeof_sockaddr_storage) = Inr example_sockaddr_in6"
  by (simp add: example_process_def load_def sizeof_sockaddr_storage_def example_sockaddr_in6_def)

text \<open>Whole calls, computed from the definitions: the scenarios of the specification
  and the edge cases of the configuration values.\<close>

lemmas eval_defs =
  bind_def example_host_def example_process_def example_process_bound_def
  example_env_def example_sockaddr_in_def example_sockaddr_in6_def read_family_def
  load_u16_def load_def u16_of_bytes_def AF_INET_def AF_INET6_def AF_UNSPEC_def resolve_def
  extract_askport_def ntohs_def determine_move_def no_move_def strtol_def isspace_def
  isdigit_def digit_val_def LONG_MAX_def LONG_MIN_def ERANGE_def long_to_int_def
  note_errno_def pass_through_def redirect_def rewrite_address_def
  sizeof_sockaddr_storage_def store_def patch_def bytes_of_u32_def htonl_def
  INADDR_LOOPBACK_def bytes_of_u16_def htons_def int_to_uint16_def v4_loopback_mapped_def
  IPPROTO_IPV6_def IPV6_V6ONLY_def call_func_def example_real_bind_def Let_def

lemma example_bind_inet:
  "bind example_host example_process 3 (Ptr 0 0) 16 = Inr (0, example_process_bound)"
  by (simp add: eval_defs)

lemma example_bind_inet6:
  "bind example_host example_process 3 (Ptr 1 0) 28 =
     Inr (0, \<lparr>func = Some example_real_bind, environ = example_env,
              mem = [example_sockaddr_in, example_sockaddr_in6],
              os = \<lparr>errno = 92,
                    kern = [Bind 3 [10, 0, 0x23, 0x82, 0, 0, 0, 0,
                                    0, 0, 0, 0, 0, 0, 0, 0, 0, 0, 0xff, 0xff, 127, 0, 0, 1,
                                    0, 0, 0, 0] 28,
                            Setsockopt 3 41 26 [0, 0, 0, 0] 4]\<rparr>\<rparr>)"
  by (simp add: eval_defs)

lemma example_bind_other_port:
  "bind example_host
     (example_process\<lparr>mem := [[2, 0, 0x1F, 0x91, 192, 168, 0, 1, 0, 0, 0, 0, 0, 0, 0, 0]]\<rparr>)
     3 (Ptr 0 0) 16 =
     Inr (0, \<lparr>func = Some example_real_bind, environ = example_env,
              mem = [[2, 0, 0x1F, 0x91, 192, 168, 0, 1, 0, 0, 0, 0, 0, 0, 0, 0]],
              os = \<lparr>errno = 0,
                    kern = [Bind 3 [2, 0, 0x1F, 0x91, 192, 168, 0, 1,
                                    0, 0, 0, 0, 0, 0, 0, 0] 16]\<rparr>\<rparr>)"
  by (simp add: eval_defs)

lemma example_bind_malformed_old_port:
  "bind example_host
     (example_process\<lparr>environ := example_env(''REBIND_OLD_PORT'' \<mapsto> ''abc'')\<rparr>)
     3 (Ptr 0 0) 16 =
     Inr (0, \<lparr>func = Some example_real_bind,
              environ = example_env(''REBIND_OLD_PORT'' \<mapsto> ''abc''),
              mem = [example_sockaddr_in, example_sockaddr_in6],
              os = \<lparr>errno = 0,
                    kern = [Bind 3 [2, 0, 0x1F, 0x90, 192, 168, 0, 1,
                                    0, 0, 0, 0, 0, 0, 0, 0] 16]\<rparr>\<rparr>)"
  by (simp add: eval_defs)

lemma example_bind_out_of_range_new_port:
  "bind example_host
     (example_process\<lparr>environ :=
        example_env(''REBIND_NEW_PORT'' \<mapsto> ''99999999999999999999'')\<rparr>)
     3 (Ptr 0 0) 16 =
     Inr (0, \<lparr>func = Some example_real_bind,
              environ = example_env(''REBIND_NEW_PORT'' \<mapsto> ''99999999999999999999''),
              mem = [example_sockaddr_in, example_sockaddr_in6],
              os = \<lparr>errno = 34,
                    kern = [Bind 3 [2, 0, 0xFF, 0xFF, 127, 0, 0, 1,
                                    0, 0, 0, 0, 0, 0, 0, 0] 16]\<rparr>\<rparr>)"
  by (simp add: eval_defs)

lemma example_bind_unix_family:
  "bind example_host
     (example_process\<lparr>mem := [[1, 0, 0x2F, 0x74, 0x6D, 0x70, 0x2F, 0x73, 0, 0, 0, 0,
                                0, 0, 0, 0, 0, 0, 0, 0, 0, 0, 0, 0]]\<rparr>) 3 (Ptr 0 0) 24 =
     Inr (0, \<lparr>func = Some example_real_bind, environ = example_env,
              mem = [[1, 0, 0x2F, 0x74, 0x6D, 0x70, 0x2F, 0x73, 0, 0, 0, 0,
                      0, 0, 0, 0, 0, 0, 0, 0, 0, 0, 0, 0]],
              os = \<lparr>errno = 0,
                    kern = [Bind 3 [1, 0, 0x2F, 0x74, 0x6D, 0x70, 0x2F, 0x73, 0, 0, 0, 0,
                                    0, 0, 0, 0, 0, 0, 0, 0, 0, 0, 0, 0] 24]\<rparr>\<rparr>)"
  by (simp add: eval_defs)

lemma example_bind_short_address:
  "bind example_host
     (example_process\<lparr>mem := [[16, 0, 0, 0, 0, 0, 0, 0, 0, 0, 0, 0]]\<rparr>) 3 (Ptr 0 0) 12 =
     Inl BadRead"
  by (simp add: eval_defs)

lemma example_65536_decision:
  "determine_move AF_INET 8080 (environ example_process_65536)
     = \<lparr>do_move = True, oldport = 8080, newport = 65536, erange = False\<rparr>"
  by (simp add: determine_move_def example_process_65536_def example_env_def strtol_8080
      strtol_65536 long_to_int_def)

lemma example_65536_mem: "mem example_process_65536 = mem example_process"
  by (simp add: example_process_65536_def)

lemma example_65536_func:
  "func (resolve example_host example_process_65536) = Some example_real_bind"
  by (simp add: resolve_def example_host_def example_process_def example_process_65536_def)

lemma example_8081_decision:
  "determine_move AF_INET 8080 (environ example_process_8081)
     = \<lparr>do_move = False, oldport = 8081, newport = 9090, erange = False\<rparr>"
  by (simp add: determine_move_def example_process_8081_def example_env_def strtol_8081
      strtol_9090 long_to_int_def)

lemma example_8081_mem: "mem example_process_8081 = mem example_process"
  by (simp add: example_process_8081_def)

lemma example_8081_func:
  "func (resolve example_host example_process_8081) = Some example_real_bind"
  by (simp add: resolve_def example_host_def example_process_def example_process_8081_def)

lemma example_long_family: "read_family (mem example_process_long) (Ptr 0 0) = Inr AF_INET"
  by (simp add: example_process_long_def example_sockaddr_in_def read_family_def load_u16_def
      load_def u16_of_bytes_def AF_INET_def)

lemma example_long_askport:
  "extract_askport (mem example_process_long) AF_INET (Ptr 0 0) = Inr 8080"
  by (simp add: example_process_long_def example_sockaddr_in_def extract_askport_def
      load_u16_def load_def u16_of_bytes_def ntohs_def)

lemma example_long_func:
  "func (resolve example_host example_process_long) = Some example_real_bind"
  by (simp add: resolve_def example_host_def example_process_def example_process_long_def)

lemma example_long_decision:
  "determine_move AF_INET 8080 (environ example_process_long)
     = \<lparr>do_move = True, oldport = 8080, newport = 9090, erange = False\<rparr>"
  using example_decision [of AF_INET]
  by (simp add: example_process_long_def)

lemma example_long_copy:
  "load (mem example_process_long) (Ptr 0 0) 0 128
     = Inr (example_sockaddr_in @ replicate 112 0x55)"
  by (simp add: example_process_long_def load_def example_sockaddr_in_def
      replicate_add [of 112 72, simplified])



section \<open>The claims\<close>

text \<open>
  Most theorems below are about calls that reach the real \<^verbatim>\<open>bind\<close>. Their hypotheses
  say what that takes, in the terms of the function itself:
  \<^item> \<open>read_family (mem s) addr = Inr family\<close>: line 51 reads the family (or the address
    is null and the family is \<^verbatim>\<open>AF_UNSPEC\<close>);
  \<^item> \<open>extract_askport (mem s) family addr = Inr askport\<close>: lines 57 to 65 read the port
    and the address inside the caller's object;
  \<^item> \<open>func (resolve h s) = Some f\<close>: after lines 53 to 55 \<^verbatim>\<open>func\<close> is not null, and \<open>f\<close> is
    the real \<^verbatim>\<open>bind\<close>;
  \<^item> \<open>load (mem s) addr 0 (min addrlen sizeof_sockaddr_storage) = Inr bytes\<close>: the
    \<^verbatim>\<open>memcpy\<close> of line 101 reads inside the caller's object.
  In the conclusions \<open>s2\<close> is the process after lines 51 to 84 (with \<^verbatim>\<open>func\<close> cached and
  \<^verbatim>\<open>errno\<close> as \<^verbatim>\<open>strtol\<close> left it) and \<open>addr_tmp\<close> is the pointer to the local object.
\<close>

text \<open>C1, as amended: redirection is selected exactly when the family is IPv4 or IPv6,
  both variables are set and not empty, each is a decimal numeral as a whole (white
  space and a sign may come first), the two values are not zero once brought to \<^verbatim>\<open>long\<close>
  and then to \<^verbatim>\<open>int\<close>, and the old one, so converted, equals the requested port, which
  is read from the address in network byte order. The values need not be positive.\<close>

theorem bind_selects_redirection_iff:
  assumes fam: "read_family (mem s) addr = Inr family"
      and port: "extract_askport (mem s) family addr = Inr askport"
      and d: "d = determine_move family askport (environ s)"
      and s2: "s2 = note_errno d (resolve h s)"
  shows "(\<exists>hi lo. load (mem s) addr 2 2 = Inr [hi, lo] \<and> askport = uint hi * 256 + uint lo) \<and>
         bind h s sockfd addr addrlen =
           (if do_move d then redirect h s2 d family sockfd addr addrlen
            else pass_through s2 sockfd addr addrlen) \<and>
         (do_move d \<longleftrightarrow>
            (family = AF_INET \<or> family = AF_INET6) \<and>
            (\<exists>PORT_OLD PORT_NEW v_old v_new.
               environ s ''REBIND_OLD_PORT'' = Some PORT_OLD \<and>
               environ s ''REBIND_NEW_PORT'' = Some PORT_NEW \<and>
               PORT_OLD \<noteq> [] \<and> PORT_NEW \<noteq> [] \<and>
               whole_decimal PORT_OLD = Some v_old \<and>
               whole_decimal PORT_NEW = Some v_new \<and>
               long_to_int (to_long v_old) \<noteq> 0 \<and>
               long_to_int (to_long v_new) \<noteq> 0 \<and>
               sint (long_to_int (to_long v_old)) = askport))"
proof (intro conjI)
  show "\<exists>hi lo. load (mem s) addr 2 2 = Inr [hi, lo] \<and> askport = uint hi * 256 + uint lo"
    using port by (rule extract_askport_bytes)
  show "bind h s sockfd addr addrlen =
           (if do_move d then redirect h s2 d family sockfd addr addrlen
            else pass_through s2 sockfd addr addrlen)"
    by (simp add: bind_unfold [OF fam port] Let_def d s2)
  show "do_move d \<longleftrightarrow>
            (family = AF_INET \<or> family = AF_INET6) \<and>
            (\<exists>PORT_OLD PORT_NEW v_old v_new.
               environ s ''REBIND_OLD_PORT'' = Some PORT_OLD \<and>
               environ s ''REBIND_NEW_PORT'' = Some PORT_NEW \<and>
               PORT_OLD \<noteq> [] \<and> PORT_NEW \<noteq> [] \<and>
               whole_decimal PORT_OLD = Some v_old \<and>
               whole_decimal PORT_NEW = Some v_new \<and>
               long_to_int (to_long v_old) \<noteq> 0 \<and>
               long_to_int (to_long v_new) \<noteq> 0 \<and>
               sint (long_to_int (to_long v_old)) = askport)"
    unfolding d by (rule determine_move_iff)
qed

theorem bind_selects_redirection_iff_witness:
  "(\<exists>hi lo. load (mem example_process) (Ptr 0 0) 2 2 = Inr [hi, lo] \<and>
            (8080 :: int) = uint hi * 256 + uint lo) \<and>
   bind example_host example_process 3 (Ptr 0 0) 16 =
     redirect example_host (resolve example_host example_process)
       \<lparr>do_move = True, oldport = 8080, newport = 9090, erange = False\<rparr> AF_INET 3 (Ptr 0 0) 16 \<and>
   (\<exists>PORT_OLD PORT_NEW v_old v_new.
      environ example_process ''REBIND_OLD_PORT'' = Some PORT_OLD \<and>
      environ example_process ''REBIND_NEW_PORT'' = Some PORT_NEW \<and>
      PORT_OLD \<noteq> [] \<and> PORT_NEW \<noteq> [] \<and>
      whole_decimal PORT_OLD = Some v_old \<and>
      whole_decimal PORT_NEW = Some v_new \<and>
      long_to_int (to_long v_old) \<noteq> 0 \<and>
      long_to_int (to_long v_new) \<noteq> 0 \<and>
      sint (long_to_int (to_long v_old)) = 8080)"
  using bind_selects_redirection_iff [OF example_family_inet example_askport_inet refl refl,
      of example_host 3 16]
  by (simp add: example_decision note_errno_def)

text \<open>C1 as first stated asks for positive integers. With \<^verbatim>\<open>REBIND_OLD_PORT=8080\<close> and
  \<^verbatim>\<open>REBIND_NEW_PORT=-5\<close> the IPv4 request of the example for port 8080 is redirected (the
  real bind is asked for 127.0.0.1:65531), and the new port is not a positive integer.\<close>

theorem bind_selects_redirection_counterexample:
  "bind example_host
     (example_process\<lparr>environ :=
        [''REBIND_OLD_PORT'' \<mapsto> ''8080'', ''REBIND_NEW_PORT'' \<mapsto> ''-5'']\<rparr>)
     3 (Ptr 0 0) 16 =
     Inr (0, \<lparr>func = Some example_real_bind,
              environ = [''REBIND_OLD_PORT'' \<mapsto> ''8080'', ''REBIND_NEW_PORT'' \<mapsto> ''-5''],
              mem = [example_sockaddr_in, example_sockaddr_in6],
              os = \<lparr>errno = 0,
                    kern = [Bind 3 [2, 0, 0xFF, 0xFB, 127, 0, 0, 1,
                                    0, 0, 0, 0, 0, 0, 0, 0] 16]\<rparr>\<rparr>) \<and>
   do_move (determine_move AF_INET 8080
              [''REBIND_OLD_PORT'' \<mapsto> ''8080'', ''REBIND_NEW_PORT'' \<mapsto> ''-5'']) \<and>
   strtol ''-5'' = (- 5, [], False) \<and>
   \<not> (0 :: int) < - 5"
  by (simp add: eval_defs)

text \<open>C2: an IPv4 request for the configured old port reaches the real bind with the
  address 127.0.0.1 and the new port in network byte order, whatever address was asked.\<close>

theorem bind_inet_rewrites_to_loopback:
  assumes fam: "read_family (mem s) addr = Inr AF_INET"
      and port: "extract_askport (mem s) AF_INET addr = Inr askport"
      and fn: "func (resolve h s) = Some f"
      and mv: "do_move (determine_move AF_INET askport (environ s))"
      and cp: "load (mem s) addr 0 (min addrlen sizeof_sockaddr_storage) = Inr bytes"
      and d: "d = determine_move AF_INET askport (environ s)"
      and s2: "s2 = note_errno d (resolve h s)"
      and tmp: "addr_tmp = Ptr (length (mem s)) 0"
  shows "\<exists>m hi lo PORT_NEW v.
           bind h s sockfd addr addrlen =
             (case f sockfd addr_tmp (min addrlen sizeof_sockaddr_storage) m (os s2) of
                (ret, sys') \<Rightarrow> Inr (ret, s2\<lparr>os := sys'\<rparr>)) \<and>
           load m addr_tmp 4 4 = Inr [127, 0, 0, 1] \<and>
           load m addr_tmp 2 2 = Inr [hi, lo] \<and>
           environ s ''REBIND_NEW_PORT'' = Some PORT_NEW \<and>
           whole_decimal PORT_NEW = Some v \<and>
           uint hi * 256 + uint lo = to_long v mod 65536 \<and>
           (0 \<le> v \<and> v < 65536 \<longrightarrow> uint hi * 256 + uint lo = v)"
proof -
  let ?port = "bytes_of_u16 (htons (int_to_uint16 (newport d)))"
  let ?obj = "patch (patch (patch (map (stack h) [0..<sizeof_sockaddr_storage]) 0 bytes)
                           4 [127, 0, 0, 1]) 2 ?port"
  let ?m = "mem s @ [?obj]"
  have len: "length bytes \<le> sizeof_sockaddr_storage"
    using load_length [OF cp] by simp
  have big: "8 \<le> sizeof_sockaddr_storage"
    by (simp add: sizeof_sockaddr_storage_def)
  have lobj: "length ?obj = sizeof_sockaddr_storage"
    using len big by (simp add: length_patch length_bytes_of_u16)
  have call: "bind h s sockfd addr addrlen =
                (case f sockfd addr_tmp (min addrlen sizeof_sockaddr_storage) ?m (os s2) of
                   (ret, sys') \<Rightarrow> Inr (ret, s2\<lparr>os := sys'\<rparr>))"
    unfolding tmp by (rule bind_redirect_inet [OF fam port fn mv cp d s2])
  have ip: "load ?m addr_tmp 4 4 = Inr [127, 0, 0, 1]"
    unfolding tmp using lobj big len
    by (subst load_last) (simp_all add: patched_inet_fields length_bytes_of_u16)
  have pt: "load ?m addr_tmp 2 2 = Inr ?port"
    unfolding tmp using lobj big len
    by (subst load_last) (simp_all add: patched_inet_fields length_bytes_of_u16)
  obtain PORT_NEW v where env: "environ s ''REBIND_NEW_PORT'' = Some PORT_NEW"
    and v: "whole_decimal PORT_NEW = Some v"
    and val: "uint (int_to_uint16 (newport d)) = to_long v mod 65536"
    using rewritten_port_value [OF mv] d by auto
  have sum: "uint (ucast (drop_bit 8 (int_to_uint16 (newport d))) :: byte) * 256
          + uint (ucast (int_to_uint16 (newport d)) :: byte) = to_long v mod 65536"
    using val by (simp add: port_bytes_value)
  have "to_long v mod 65536 = v" if "0 \<le> v" "v < 65536"
    using that by (simp add: to_long_def LONG_MAX_def LONG_MIN_def)
  with sum have "0 \<le> v \<and> v < 65536 \<longrightarrow>
      uint (ucast (drop_bit 8 (int_to_uint16 (newport d))) :: byte) * 256
          + uint (ucast (int_to_uint16 (newport d)) :: byte) = v"
    by simp
  with call ip pt env v sum show ?thesis
    unfolding htons_bytes by blast
qed

theorem bind_inet_rewrites_to_loopback_witness:
  "\<exists>m hi lo.
     bind example_host example_process 3 (Ptr 0 0) 16 =
       (case example_real_bind 3 (Ptr 2 0) 16 m \<lparr>errno = 0, kern = []\<rparr> of
          (ret, sys') \<Rightarrow> Inr (ret, (resolve example_host example_process)\<lparr>os := sys'\<rparr>)) \<and>
     load m (Ptr 2 0) 4 4 = Inr [127, 0, 0, 1] \<and>
     load m (Ptr 2 0) 2 2 = Inr [hi, lo] \<and>
     uint hi * 256 + uint lo = 9090"
proof -
  have mv: "do_move (determine_move AF_INET 8080 (environ example_process))"
    by (simp add: example_decision)
  have len: "Ptr (length (mem example_process)) 0 = Ptr 2 0"
    by (simp add: example_process_def)
  have k: "min 16 sizeof_sockaddr_storage = 16"
    by (simp add: sizeof_sockaddr_storage_def)
  have s2: "note_errno (determine_move AF_INET 8080 (environ example_process))
              (resolve example_host example_process) = resolve example_host example_process"
    by (simp add: example_decision note_errno_def)
  have sys: "os (resolve example_host example_process) = \<lparr>errno = 0, kern = []\<rparr>"
    by (simp add: resolve_def example_process_def)
  from bind_inet_rewrites_to_loopback [OF example_family_inet example_askport_inet example_func
      mv example_copy_inet refl refl refl, of 3]
  obtain m hi lo PORT_NEW v where
    call: "bind example_host example_process 3 (Ptr 0 0) 16 =
       (case example_real_bind 3 (Ptr 2 0) 16 m \<lparr>errno = 0, kern = []\<rparr> of
          (ret, sys') \<Rightarrow> Inr (ret, (resolve example_host example_process)\<lparr>os := sys'\<rparr>))"
    and ip: "load m (Ptr 2 0) 4 4 = Inr [127, 0, 0, 1]"
    and pt: "load m (Ptr 2 0) 2 2 = Inr [hi, lo]"
    and env: "environ example_process ''REBIND_NEW_PORT'' = Some PORT_NEW"
    and v: "whole_decimal PORT_NEW = Some v"
    and val: "0 \<le> v \<and> v < 65536 \<longrightarrow> uint hi * 256 + uint lo = v"
    unfolding len k s2 sys by blast
  from env v have "v = 9090"
    using whole_decimal_9090 by (auto simp: example_new_port)
  with val have "uint hi * 256 + uint lo = 9090" by simp
  with call ip pt show ?thesis by blast
qed

text \<open>C3: an IPv6 request for the configured old port reaches the real bind with the
  address \<^verbatim>\<open>::ffff:127.0.0.1\<close>, the new port in network byte order and the scope
  identifier 0.\<close>

theorem bind_inet6_rewrites_to_mapped_loopback:
  assumes fam: "read_family (mem s) addr = Inr AF_INET6"
      and port: "extract_askport (mem s) AF_INET6 addr = Inr askport"
      and fn: "func (resolve h s) = Some f"
      and mv: "do_move (determine_move AF_INET6 askport (environ s))"
      and cp: "load (mem s) addr 0 (min addrlen sizeof_sockaddr_storage) = Inr bytes"
      and d: "d = determine_move AF_INET6 askport (environ s)"
      and s2: "s2 = note_errno d (resolve h s)"
      and tmp: "addr_tmp = Ptr (length (mem s)) 0"
  shows "\<exists>m sys hi lo PORT_NEW v.
           bind h s sockfd addr addrlen =
             (case f sockfd addr_tmp (min addrlen sizeof_sockaddr_storage) m sys of
                (ret, sys') \<Rightarrow> Inr (ret, s2\<lparr>os := sys'\<rparr>)) \<and>
           load m addr_tmp 8 16 =
             Inr [0, 0, 0, 0, 0, 0, 0, 0, 0, 0, 0xff, 0xff, 127, 0, 0, 1] \<and>
           load m addr_tmp 2 2 = Inr [hi, lo] \<and>
           environ s ''REBIND_NEW_PORT'' = Some PORT_NEW \<and>
           whole_decimal PORT_NEW = Some v \<and>
           uint hi * 256 + uint lo = to_long v mod 65536 \<and>
           (0 \<le> v \<and> v < 65536 \<longrightarrow> uint hi * 256 + uint lo = v) \<and>
           load m addr_tmp 24 4 = Inr [0, 0, 0, 0]"
proof -
  let ?port = "bytes_of_u16 (htons (int_to_uint16 (newport d)))"
  let ?obj = "patch (patch (patch (patch (map (stack h) [0..<sizeof_sockaddr_storage]) 0 bytes)
                           8 v4_loopback_mapped) 2 ?port) 24 [0, 0, 0, 0]"
  let ?m = "mem s @ [?obj]"
  let ?sys = "snd (setsockopt h sockfd IPPROTO_IPV6 IPV6_V6ONLY (bytes_of_u32 0) 4 (os s2))"
  have len: "length bytes \<le> sizeof_sockaddr_storage"
    using load_length [OF cp] by simp
  have big: "28 \<le> sizeof_sockaddr_storage"
    by (simp add: sizeof_sockaddr_storage_def)
  have lobj: "length ?obj = sizeof_sockaddr_storage"
    using len big by (simp add: length_patch length_bytes_of_u16 length_v4_loopback_mapped)
  have call: "bind h s sockfd addr addrlen =
                (case f sockfd addr_tmp (min addrlen sizeof_sockaddr_storage) ?m ?sys of
                   (ret, sys') \<Rightarrow> Inr (ret, s2\<lparr>os := sys'\<rparr>))"
    unfolding tmp by (rule bind_redirect_inet6 [OF fam port fn mv cp d s2])
  have ip: "load ?m addr_tmp 8 16 = Inr v4_loopback_mapped"
    unfolding tmp using lobj big len
    by (subst load_last)
       (simp_all add: patched_inet6_fields length_bytes_of_u16 length_v4_loopback_mapped)
  have pt: "load ?m addr_tmp 2 2 = Inr ?port"
    unfolding tmp using lobj big len
    by (subst load_last)
       (simp_all add: patched_inet6_fields length_bytes_of_u16 length_v4_loopback_mapped)
  have sc: "load ?m addr_tmp 24 4 = Inr [0, 0, 0, 0]"
    unfolding tmp using lobj big len
    by (subst load_last)
       (simp_all add: patched_inet6_fields length_bytes_of_u16 length_v4_loopback_mapped)
  obtain PORT_NEW v where env: "environ s ''REBIND_NEW_PORT'' = Some PORT_NEW"
    and v: "whole_decimal PORT_NEW = Some v"
    and val: "uint (int_to_uint16 (newport d)) = to_long v mod 65536"
    using rewritten_port_value [OF mv] d by auto
  have sum: "uint (ucast (drop_bit 8 (int_to_uint16 (newport d))) :: byte) * 256
          + uint (ucast (int_to_uint16 (newport d)) :: byte) = to_long v mod 65536"
    using val by (simp add: port_bytes_value)
  have "to_long v mod 65536 = v" if "0 \<le> v" "v < 65536"
    using that by (simp add: to_long_def LONG_MAX_def LONG_MIN_def)
  with sum have "0 \<le> v \<and> v < 65536 \<longrightarrow>
      uint (ucast (drop_bit 8 (int_to_uint16 (newport d))) :: byte) * 256
          + uint (ucast (int_to_uint16 (newport d)) :: byte) = v"
    by simp
  with call ip pt sc env v sum show ?thesis
    unfolding htons_bytes v4_loopback_mapped_def by blast
qed

theorem bind_inet6_rewrites_to_mapped_loopback_witness:
  "\<exists>m sys hi lo.
     bind example_host example_process 3 (Ptr 1 0) 28 =
       (case example_real_bind 3 (Ptr 2 0) 28 m sys of
          (ret, sys') \<Rightarrow> Inr (ret, (resolve example_host example_process)\<lparr>os := sys'\<rparr>)) \<and>
     load m (Ptr 2 0) 8 16 = Inr [0, 0, 0, 0, 0, 0, 0, 0, 0, 0, 0xff, 0xff, 127, 0, 0, 1] \<and>
     load m (Ptr 2 0) 2 2 = Inr [hi, lo] \<and>
     uint hi * 256 + uint lo = 9090 \<and>
     load m (Ptr 2 0) 24 4 = Inr [0, 0, 0, 0]"
proof -
  have mv: "do_move (determine_move AF_INET6 8080 (environ example_process))"
    by (simp add: example_decision)
  have len: "Ptr (length (mem example_process)) 0 = Ptr 2 0"
    by (simp add: example_process_def)
  have k: "min 28 sizeof_sockaddr_storage = 28"
    by (simp add: sizeof_sockaddr_storage_def)
  have s2: "note_errno (determine_move AF_INET6 8080 (environ example_process))
              (resolve example_host example_process) = resolve example_host example_process"
    by (simp add: example_decision note_errno_def)
  from bind_inet6_rewrites_to_mapped_loopback [OF example_family_inet6 example_askport_inet6
      example_func mv example_copy_inet6 refl refl refl, of 3]
  obtain m sys hi lo PORT_NEW v where
    call: "bind example_host example_process 3 (Ptr 1 0) 28 =
       (case example_real_bind 3 (Ptr 2 0) 28 m sys of
          (ret, sys') \<Rightarrow> Inr (ret, (resolve example_host example_process)\<lparr>os := sys'\<rparr>))"
    and ip: "load m (Ptr 2 0) 8 16
               = Inr [0, 0, 0, 0, 0, 0, 0, 0, 0, 0, 0xff, 0xff, 127, 0, 0, 1]"
    and pt: "load m (Ptr 2 0) 2 2 = Inr [hi, lo]"
    and env: "environ example_process ''REBIND_NEW_PORT'' = Some PORT_NEW"
    and v: "whole_decimal PORT_NEW = Some v"
    and val: "0 \<le> v \<and> v < 65536 \<longrightarrow> uint hi * 256 + uint lo = v"
    and sc: "load m (Ptr 2 0) 24 4 = Inr [0, 0, 0, 0]"
    unfolding len k s2 by blast
  from env v have "v = 9090"
    using whole_decimal_9090 by (auto simp: example_new_port)
  with val have "uint hi * 256 + uint lo = 9090" by simp
  with call ip pt sc show ?thesis by blast
qed

text \<open>Calls that reach line 86: what the caller gets is what the real bind returned,
  and on the path that does not redirect the real bind is called with the caller's own
  arguments.\<close>

lemma bind_returns_result_of_real_bind:
  assumes fam: "read_family (mem s) addr = Inr family"
      and port: "extract_askport (mem s) family addr = Inr askport"
      and fn: "func (resolve h s) = Some f"
      and d: "d = determine_move family askport (environ s)"
      and s2: "s2 = note_errno d (resolve h s)"
      and cp: "do_move d \<Longrightarrow>
                 load (mem s) addr 0 (min addrlen sizeof_sockaddr_storage) = Inr bytes"
  shows "(\<not> do_move d \<longrightarrow>
            bind h s sockfd addr addrlen =
              (case f sockfd addr addrlen (mem s) (os s2) of
                 (ret, sys') \<Rightarrow> Inr (ret, s2\<lparr>os := sys'\<rparr>))) \<and>
         (do_move d \<longrightarrow>
            (\<exists>p n m sys.
               bind h s sockfd addr addrlen =
                 (case f sockfd p n m sys of
                    (ret, sys') \<Rightarrow> Inr (ret, s2\<lparr>os := sys'\<rparr>))))"
proof (intro conjI impI)
  assume "\<not> do_move d"
  then show "bind h s sockfd addr addrlen =
              (case f sockfd addr addrlen (mem s) (os s2) of
                 (ret, sys') \<Rightarrow> Inr (ret, s2\<lparr>os := sys'\<rparr>))"
    using bind_pass_through [OF fam port fn, of sockfd addrlen] by (simp add: d s2)
next
  assume mv: "do_move d"
  then have mv': "do_move (determine_move family askport (environ s))" by (simp add: d)
  from bind_redirected [OF fam port fn mv' cp [OF mv] d s2, of sockfd]
  show "\<exists>p n m sys.
          bind h s sockfd addr addrlen =
            (case f sockfd p n m sys of (ret, sys') \<Rightarrow> Inr (ret, s2\<lparr>os := sys'\<rparr>))"
    by metis
qed

lemma bind_returns_result_of_real_bind_example:
  "bind example_host example_process_8081 3 (Ptr 0 0) 16 =
     (case example_real_bind 3 (Ptr 0 0) 16 (mem example_process) \<lparr>errno = 0, kern = []\<rparr> of
        (ret, sys') \<Rightarrow>
          Inr (ret, (resolve example_host example_process_8081)\<lparr>os := sys'\<rparr>))"
  using bind_returns_result_of_real_bind [of example_process_8081 "Ptr 0 0" AF_INET 8080
      example_host example_real_bind _ _ 16 example_sockaddr_in 3,
      OF _ _ example_8081_func refl refl]
  by (simp add: example_8081_mem example_family_inet example_askport_inet
      example_8081_decision note_errno_def)
     (simp add: example_process_8081_def example_process_def resolve_def)

text \<open>C4: the real bind is to be called with the caller's arguments whenever
  redirection is not selected. For the calls that reach line 86 that is the lemma above.
  A call with a null address is such a call too: line 51 makes its family \<^verbatim>\<open>AF_UNSPEC\<close>,
  for which \<^verbatim>\<open>do_move\<close> stays 0. It does not reach the real bind: it faults at lines 61
  to 64. In the example, lines 86 to 91 would have returned the real bind's \<open>- 1\<close> with
  \<^verbatim>\<open>errno\<close> 14.\<close>

theorem bind_null_address_not_passed_through:
  "read_family (mem s) NULL = Inr AF_UNSPEC \<and>
   \<not> do_move (determine_move AF_UNSPEC askport (environ s)) \<and>
   bind h s sockfd NULL addrlen = Inl BadRead \<and>
   pass_through (resolve example_host example_process) 3 NULL 0 =
     Inr (- 1, \<lparr>func = Some example_real_bind, environ = example_env,
                 mem = [example_sockaddr_in, example_sockaddr_in6],
                 os = \<lparr>errno = 14, kern = []\<rparr>\<rparr>) \<and>
   bind example_host example_process 3 NULL 0 = Inl BadRead"
  by (simp add: bind_def read_family_def extract_askport_def load_u16_def load_def
      determine_move_def no_move_def AF_UNSPEC_def AF_INET_def AF_INET6_def
      pass_through_def call_func_def resolve_def example_host_def example_process_def
      example_real_bind_def)

text \<open>C5: a call with a null address. The claim is that it is forwarded unchanged;
  the function faults instead: the family is \<^verbatim>\<open>AF_UNSPEC\<close>, so the second branch of
  lines 57 to 65 reads \<^verbatim>\<open>sin6_port\<close> through the null pointer.\<close>

theorem bind_null_address_faults:
  "bind h s sockfd NULL addrlen = Inl BadRead"
  by (simp add: bind_def read_family_def extract_askport_def load_u16_def load_def
      AF_UNSPEC_def AF_INET_def)

text \<open>C6: the caller's memory is the same after the call as before it, and the real
  bind runs on a memory in which the caller's objects are unchanged: with the caller's
  pointer, or with a pointer to an object the caller's memory did not have.\<close>

theorem bind_leaves_caller_memory:
  assumes "bind h s sockfd addr addrlen = Inr (ret, s')"
  shows "mem s' = mem s \<and>
         (\<exists>f p n m sys.
            func s' = Some f \<and> f sockfd p n m sys = (ret, os s') \<and>
            take (length (mem s)) m = mem s \<and>
            (p = addr \<and> m = mem s \<or>
             p = Ptr (length (mem s)) 0 \<and> length m = Suc (length (mem s))))"
proof -
  from assms obtain family askport where
    fam: "read_family (mem s) addr = Inr family"
    and port: "extract_askport (mem s) family addr = Inr askport"
    by (rule bind_cases)
  define d where "d = determine_move family askport (environ s)"
  define s2 where "s2 = note_errno d (resolve h s)"
  have m2: "mem s2 = mem s" by (simp add: s2_def)
  show ?thesis
  proof (cases "do_move d")
    case False
    with assms have "call_func s2 (length (mem s)) sockfd addr addrlen (mem s) (os s2)
                       = Inr (ret, s')"
      by (simp add: bind_unfold [OF fam port] Let_def d_def s2_def pass_through_def)
    then obtain f where "func s' = Some f" "f sockfd addr addrlen (mem s) (os s2) = (ret, os s')"
      "mem s' = take (length (mem s)) (mem s)"
      by (rule call_func_result)
    then have "mem s' = mem s"
      and "func s' = Some f \<and> f sockfd addr addrlen (mem s) (os s2) = (ret, os s') \<and>
            take (length (mem s)) (mem s) = mem s \<and>
            (addr = addr \<and> mem s = mem s \<or>
             addr = Ptr (length (mem s)) 0 \<and> length (mem s) = Suc (length (mem s)))"
      by simp_all
    then show ?thesis by blast
  next
    case True
    with assms have red: "redirect h s2 d family sockfd addr addrlen = Inr (ret, s')"
      by (simp add: bind_unfold [OF fam port] Let_def d_def s2_def)
    then obtain m p n sys where
      rw: "rewrite_address h s2 d family sockfd addr addrlen = Inr (m, p, n, sys)"
      and cf: "call_func s2 (length (mem s)) sockfd p n m sys = Inr (ret, s')"
      by (auto simp: redirect_def m2 split: sum.splits)
    from rewrite_address_frame [OF rw]
    have fr: "take (length (mem s)) m = mem s" "length m = Suc (length (mem s))"
      "p = Ptr (length (mem s)) 0"
      by (simp_all add: m2)
    from cf obtain f where "func s' = Some f" "f sockfd p n m sys = (ret, os s')"
      "mem s' = take (length (mem s)) m"
      by (rule call_func_result)
    with fr have "mem s' = mem s"
      and "func s' = Some f \<and> f sockfd p n m sys = (ret, os s') \<and>
            take (length (mem s)) m = mem s \<and>
            (p = addr \<and> m = mem s \<or>
             p = Ptr (length (mem s)) 0 \<and> length m = Suc (length (mem s)))"
      by simp_all
    then show ?thesis by blast
  qed
qed

theorem bind_leaves_caller_memory_witness:
  "mem example_process_bound = mem example_process \<and>
   (\<exists>f p n m sys.
      func example_process_bound = Some f \<and>
      f 3 p n m sys = (0, os example_process_bound) \<and>
      take 2 m = mem example_process \<and>
      (p = Ptr 0 0 \<and> m = mem example_process \<or> p = Ptr 2 0 \<and> length m = 3))"
proof -
  have len: "length (mem example_process) = 2"
    by (simp add: example_process_def)
  have three: "Suc 2 = 3" by simp
  show ?thesis
    using bind_leaves_caller_memory [OF example_bind_inet] unfolding len three .
qed

text \<open>C7: the copy into the private buffer. The buffer has the size of
  \<^verbatim>\<open>struct sockaddr_storage\<close>, which holds either structure; the length copied and passed
  on is the declared length capped at that size; outside the rewritten fields the
  buffer holds the caller's bytes; and the call goes on to the real bind.\<close>

theorem bind_copies_capped_length:
  assumes fam: "read_family (mem s) addr = Inr family"
      and port: "extract_askport (mem s) family addr = Inr askport"
      and fn: "func (resolve h s) = Some f"
      and mv: "do_move (determine_move family askport (environ s))"
      and k: "addrlen_tmp = (if addrlen > sizeof_sockaddr_storage
                             then sizeof_sockaddr_storage else addrlen)"
      and cp: "load (mem s) addr 0 addrlen_tmp = Inr bytes"
      and s2: "s2 = note_errno (determine_move family askport (environ s)) (resolve h s)"
      and tmp: "addr_tmp = Ptr (length (mem s)) 0"
  shows "\<exists>obj sys.
           bind h s sockfd addr addrlen =
             (case f sockfd addr_tmp addrlen_tmp (mem s @ [obj]) sys of
                (ret, sys') \<Rightarrow> Inr (ret, s2\<lparr>os := sys'\<rparr>)) \<and>
           length obj = sizeof_sockaddr_storage \<and>
           sizeof_sockaddr_in \<le> length obj \<and> sizeof_sockaddr_in6 \<le> length obj \<and>
           addrlen_tmp \<le> length obj \<and>
           (sizeof_sockaddr_storage < addrlen \<longrightarrow> addrlen_tmp = sizeof_sockaddr_storage) \<and>
           (\<forall>i < addrlen_tmp.
              (if family = AF_INET then i < 2 \<or> 8 \<le> i
               else i < 2 \<or> (4 \<le> i \<and> i < 8) \<or> 28 \<le> i) \<longrightarrow>
              load (mem s @ [obj]) addr_tmp i 1 = load (mem s) addr i 1)"
proof -
  define d where "d = determine_move family askport (environ s)"
  have k': "addrlen_tmp = min addrlen sizeof_sockaddr_storage"
    by (simp add: k min_def)
  have cp': "load (mem s) addr 0 (min addrlen sizeof_sockaddr_storage) = Inr bytes"
    using cp by (simp add: k')
  have lb: "length bytes = addrlen_tmp"
    using load_length [OF cp] .
  obtain obj sys where
    call: "bind h s sockfd addr addrlen =
       (case f sockfd (Ptr (length (mem s)) 0) (min addrlen sizeof_sockaddr_storage)
               (mem s @ [obj]) sys of
          (ret, sys') \<Rightarrow> Inr (ret, s2\<lparr>os := sys'\<rparr>))"
    and lobj: "length obj = sizeof_sockaddr_storage"
    and rest: "\<And>i. i < length bytes \<Longrightarrow>
           (if family = AF_INET then i < 2 \<or> 8 \<le> i
            else i < 2 \<or> (4 \<le> i \<and> i < 8) \<or> 28 \<le> i) \<Longrightarrow> obj ! i = bytes ! i"
    using bind_redirected [OF fam port fn mv cp' d_def, of s2 sockfd] s2 d_def by blast
  have same: "load (mem s @ [obj]) addr_tmp i 1 = load (mem s) addr i 1"
    if "i < addrlen_tmp"
      and "if family = AF_INET then i < 2 \<or> 8 \<le> i
           else i < 2 \<or> (4 \<le> i \<and> i < 8) \<or> 28 \<le> i" for i
  proof -
    have "i < length obj" using that(1) lobj by (simp add: k')
    then have "load (mem s @ [obj]) addr_tmp i 1 = Inr [obj ! i]"
      unfolding tmp by (rule load_last_byte)
    also have "obj ! i = bytes ! i" using that lb by (intro rest) simp_all
    also have "Inr [bytes ! i] = load (mem s) addr i 1"
      using load_byte [OF cp that(1)] by simp
    finally show ?thesis .
  qed
  have sizes: "sizeof_sockaddr_in \<le> length obj" "sizeof_sockaddr_in6 \<le> length obj"
    "addrlen_tmp \<le> length obj"
    using lobj
    by (simp_all add: k' sizeof_sockaddr_in_def sizeof_sockaddr_in6_def
        sizeof_sockaddr_storage_def)
  have cap: "sizeof_sockaddr_storage < addrlen \<longrightarrow> addrlen_tmp = sizeof_sockaddr_storage"
    by (simp add: k)
  from call lobj sizes cap same show ?thesis
    unfolding tmp k' [symmetric] by blast
qed

theorem bind_copies_capped_length_witness:
  "\<exists>obj sys.
     bind example_host example_process_long 3 (Ptr 0 0) 200 =
       (case example_real_bind 3 (Ptr 2 0) 128 (mem example_process_long @ [obj]) sys of
          (ret, sys') \<Rightarrow>
             Inr (ret, (resolve example_host example_process_long)\<lparr>os := sys'\<rparr>)) \<and>
     length obj = 128 \<and>
     load (mem example_process_long @ [obj]) (Ptr 2 0) 127 1
       = load (mem example_process_long) (Ptr 0 0) 127 1"
proof -
  have len: "length (mem example_process_long) = 2"
    by (simp add: example_process_long_def)
  have k: "(128::nat) = (if 200 > sizeof_sockaddr_storage then sizeof_sockaddr_storage else 200)"
    by (simp add: sizeof_sockaddr_storage_def)
  from bind_copies_capped_length [OF example_long_family example_long_askport
      example_long_func _ k example_long_copy refl refl, of 3]
  obtain obj sys where
    a: "bind example_host example_process_long 3 (Ptr 0 0) 200 =
         (case example_real_bind 3 (Ptr 2 0) 128 (mem example_process_long @ [obj]) sys of
            (ret, sys') \<Rightarrow>
              Inr (ret, (note_errno (determine_move AF_INET 8080 (environ example_process_long))
                           (resolve example_host example_process_long))\<lparr>os := sys'\<rparr>))"
    and b: "length obj = sizeof_sockaddr_storage"
    and c: "\<forall>i<128. (if AF_INET = AF_INET then i < 2 \<or> 8 \<le> i
                       else i < 2 \<or> (4 \<le> i \<and> i < 8) \<or> 28 \<le> i) \<longrightarrow>
              load (mem example_process_long @ [obj]) (Ptr 2 0) i 1
                = load (mem example_process_long) (Ptr 0 0) i 1"
    by (auto simp: example_long_decision len)
  from c have "load (mem example_process_long @ [obj]) (Ptr 2 0) 127 1
                 = load (mem example_process_long) (Ptr 0 0) 127 1"
    by simp
  with a b show ?thesis
    by (auto simp: example_long_decision note_errno_def sizeof_sockaddr_storage_def)
qed

text \<open>C8: on the IPv6 path \<^verbatim>\<open>setsockopt\<close> is called before the real bind, which runs in
  the state \<^verbatim>\<open>setsockopt\<close> left; the value \<^verbatim>\<open>setsockopt\<close> returns is not looked at: with
  any other return value \<open>r\<close> the call does the same.\<close>

theorem bind_ignores_setsockopt_result:
  assumes fam: "read_family (mem s) addr = Inr AF_INET6"
      and port: "extract_askport (mem s) AF_INET6 addr = Inr askport"
      and fn: "func (resolve h s) = Some f"
      and mv: "do_move (determine_move AF_INET6 askport (environ s))"
      and cp: "load (mem s) addr 0 (min addrlen sizeof_sockaddr_storage) = Inr bytes"
      and s2: "s2 = note_errno (determine_move AF_INET6 askport (environ s)) (resolve h s)"
      and tmp: "addr_tmp = Ptr (length (mem s)) 0"
  shows "(\<exists>m. bind h s sockfd addr addrlen =
             (case f sockfd addr_tmp (min addrlen sizeof_sockaddr_storage) m
                     (snd (setsockopt h sockfd IPPROTO_IPV6 IPV6_V6ONLY [0, 0, 0, 0] 4 (os s2))) of
                (ret, sys') \<Rightarrow> Inr (ret, s2\<lparr>os := sys'\<rparr>))) \<and>
         bind (h\<lparr>setsockopt :=
                    (\<lambda>fd level optname optval optlen sys.
                       (r, snd (setsockopt h fd level optname optval optlen sys)))\<rparr>)
              s sockfd addr addrlen
           = bind h s sockfd addr addrlen"
proof -
  let ?h' = "h\<lparr>setsockopt :=
                    (\<lambda>fd level optname optval optlen sys.
                       (r, snd (setsockopt h fd level optname optval optlen sys)))\<rparr>"
  have fn': "func (resolve ?h' s) = Some f" using fn by simp
  have s2': "s2 = note_errno (determine_move AF_INET6 askport (environ s)) (resolve ?h' s)"
    using s2 by simp
  note a = bind_redirect_inet6 [OF fam port fn mv cp refl s2, of sockfd]
  note b = bind_redirect_inet6 [OF fam port fn' mv cp refl s2', of sockfd]
  have "bind ?h' s sockfd addr addrlen = bind h s sockfd addr addrlen"
    unfolding a b by simp
  moreover have "\<exists>m. bind h s sockfd addr addrlen =
             (case f sockfd addr_tmp (min addrlen sizeof_sockaddr_storage) m
                     (snd (setsockopt h sockfd IPPROTO_IPV6 IPV6_V6ONLY [0, 0, 0, 0] 4 (os s2))) of
                (ret, sys') \<Rightarrow> Inr (ret, s2\<lparr>os := sys'\<rparr>))"
    unfolding a tmp zero_bytes by blast
  ultimately show ?thesis by blast
qed

theorem bind_ignores_setsockopt_result_witness:
  "(\<exists>m. bind example_host example_process 3 (Ptr 1 0) 28 =
          (case example_real_bind 3 (Ptr 2 0) 28 m
                  \<lparr>errno = 92, kern = [Setsockopt 3 41 26 [0, 0, 0, 0] 4]\<rparr> of
             (ret, sys') \<Rightarrow>
               Inr (ret, (resolve example_host example_process)\<lparr>os := sys'\<rparr>))) \<and>
   bind (example_host\<lparr>setsockopt :=
            (\<lambda>fd level optname optval optlen sys.
               (0, snd (setsockopt example_host fd level optname optval optlen sys)))\<rparr>)
        example_process 3 (Ptr 1 0) 28
     = bind example_host example_process 3 (Ptr 1 0) 28"
proof -
  have mv: "do_move (determine_move AF_INET6 8080 (environ example_process))"
    by (simp add: example_decision)
  have len: "Ptr (length (mem example_process)) 0 = Ptr 2 0"
    by (simp add: example_process_def)
  have k: "min 28 sizeof_sockaddr_storage = 28"
    by (simp add: sizeof_sockaddr_storage_def)
  have s2: "note_errno (determine_move AF_INET6 8080 (environ example_process))
              (resolve example_host example_process) = resolve example_host example_process"
    by (simp add: example_decision note_errno_def)
  have sys: "snd (setsockopt example_host 3 IPPROTO_IPV6 IPV6_V6ONLY [0, 0, 0, 0] 4
                    (os (resolve example_host example_process)))
               = \<lparr>errno = 92, kern = [Setsockopt 3 41 26 [0, 0, 0, 0] 4]\<rparr>"
    by (simp add: example_host_def example_process_def resolve_def IPPROTO_IPV6_def
        IPV6_V6ONLY_def)
  show ?thesis
    using bind_ignores_setsockopt_result [OF example_family_inet6 example_askport_inet6
        example_func mv example_copy_inet6 refl refl, of 3 0]
    unfolding len k s2 sys .
qed



text \<open>C10: the port handed to the real bind is the value \<^verbatim>\<open>strtol\<close> returned for
  \<^verbatim>\<open>REBIND_NEW_PORT\<close> modulo \<open>2 ^ 16\<close>; no range check stands between them.\<close>

theorem bind_new_port_wraps:
  assumes fam: "read_family (mem s) addr = Inr family"
      and port: "extract_askport (mem s) family addr = Inr askport"
      and fn: "func (resolve h s) = Some f"
      and mv: "do_move (determine_move family askport (environ s))"
      and cp: "load (mem s) addr 0 (min addrlen sizeof_sockaddr_storage) = Inr bytes"
      and env: "environ s ''REBIND_NEW_PORT'' = Some PORT_NEW"
      and s2: "s2 = note_errno (determine_move family askport (environ s)) (resolve h s)"
      and tmp: "addr_tmp = Ptr (length (mem s)) 0"
  shows "\<exists>m sys hi lo.
           bind h s sockfd addr addrlen =
             (case f sockfd addr_tmp (min addrlen sizeof_sockaddr_storage) m sys of
                (ret, sys') \<Rightarrow> Inr (ret, s2\<lparr>os := sys'\<rparr>)) \<and>
           load m addr_tmp 2 2 = Inr [hi, lo] \<and>
           uint hi * 256 + uint lo = fst (strtol PORT_NEW) mod 2 ^ 16"
proof -
  define d where "d = determine_move family askport (environ s)"
  obtain obj sys where
    call: "bind h s sockfd addr addrlen =
       (case f sockfd (Ptr (length (mem s)) 0) (min addrlen sizeof_sockaddr_storage)
               (mem s @ [obj]) sys of
          (ret, sys') \<Rightarrow> Inr (ret, s2\<lparr>os := sys'\<rparr>))"
    and lobj: "length obj = sizeof_sockaddr_storage"
    and pt: "take 2 (drop 2 obj) = bytes_of_u16 (htons (int_to_uint16 (newport d)))"
    using bind_redirected [OF fam port fn mv cp d_def, of s2 sockfd] s2 d_def by blast
  have ld: "load (mem s @ [obj]) addr_tmp 2 2
              = Inr [ucast (drop_bit 8 (int_to_uint16 (newport d))),
                     ucast (int_to_uint16 (newport d))]"
    unfolding tmp using lobj pt
    by (subst load_last) (simp_all add: sizeof_sockaddr_storage_def htons_bytes)
  obtain P v where P: "environ s ''REBIND_NEW_PORT'' = Some P"
    and st: "fst (strtol P) = to_long v"
    and val: "uint (int_to_uint16 (newport d)) = to_long v mod 65536"
    using rewritten_port_value [OF mv] d_def by auto
  from P env have "P = PORT_NEW" by simp
  with st val have "uint (int_to_uint16 (newport d)) = fst (strtol PORT_NEW) mod 2 ^ 16"
    by simp
  then have "uint (ucast (drop_bit 8 (int_to_uint16 (newport d))) :: byte) * 256
          + uint (ucast (int_to_uint16 (newport d)) :: byte) = fst (strtol PORT_NEW) mod 2 ^ 16"
    by (simp add: port_bytes_value)
  with call ld show ?thesis unfolding tmp by blast
qed

theorem bind_new_port_wraps_witness:
  "\<exists>m sys hi lo.
     bind example_host example_process_65536 3 (Ptr 0 0) 16 =
       (case example_real_bind 3 (Ptr 2 0) 16 m sys of
          (ret, sys') \<Rightarrow>
             Inr (ret, (resolve example_host example_process_65536)\<lparr>os := sys'\<rparr>)) \<and>
     load m (Ptr 2 0) 2 2 = Inr [hi, lo] \<and>
     uint hi * 256 + uint lo = 0"
  using bind_new_port_wraps [of example_process_65536 "Ptr 0 0" AF_INET 8080 example_host
      example_real_bind 16 example_sockaddr_in "''65536''" _ _ 3, OF _ _ example_65536_func _ _ _ refl refl]
  by (simp add: example_65536_mem example_family_inet example_askport_inet example_copy_inet
      example_65536_decision note_errno_def strtol_65536)
     (auto simp add: example_process_65536_def example_process_def example_env_def
        sizeof_sockaddr_storage_def numeral_2_eq_2 [symmetric])

end
